theory Spec2Isabelle
  imports Complex_Main "HOL-Library.Product_Lexorder"
begin

section \<open>Python and BSON values\<close>

text \<open>
  The report service of the clinic backend (\<^verbatim>\<open>clinic_api/services/reports.py\<close>) reads
  MongoDB documents and returns JSON-serialisable Python values. Dates are naive Python
  \<^verbatim>\<open>date\<close>/\<^verbatim>\<open>datetime\<close> objects; Python compares them field by field, from the year down.
\<close>

record date =
  d_year :: nat
  d_month :: nat
  d_day :: nat

record datetime =
  dt_year :: nat
  dt_month :: nat
  dt_day :: nat
  dt_hour :: nat
  dt_minute :: nat
  dt_second :: nat
  dt_microsecond :: nat

definition dt_key :: "datetime \<Rightarrow> nat \<times> nat \<times> nat \<times> nat \<times> nat \<times> nat \<times> nat" where
  "dt_key d = (dt_year d, dt_month d, dt_day d, dt_hour d, dt_minute d, dt_second d,
     dt_microsecond d)"

definition dt_le :: "datetime \<Rightarrow> datetime \<Rightarrow> bool" where
  "dt_le a b = (dt_key a \<le> dt_key b)"

definition dt_lt :: "datetime \<Rightarrow> datetime \<Rightarrow> bool" where
  "dt_lt a b = (dt_key a < dt_key b)"

subsection \<open>Decimal strings\<close>

definition digit_char :: "nat \<Rightarrow> char" where
  "digit_char d = ''0123456789'' ! d"

fun digits :: "nat \<Rightarrow> string" where
  "digits n = (if n < 10 then [digit_char n] else digits (n div 10) @ [digit_char (n mod 10)])"

declare digits.simps [simp del]

text \<open>Python's \<^verbatim>\<open>str(n)\<close> for an int, and the \<^verbatim>\<open>%0wd\<close> format for a non-negative field.\<close>

definition str_int :: "int \<Rightarrow> string" where
  "str_int i = (if i < 0 then CHR ''-'' # digits (nat (- i)) else digits (nat i))"

definition zero_pad :: "nat \<Rightarrow> nat \<Rightarrow> string" where
  "zero_pad w n = replicate (w - length (digits n)) CHR ''0'' @ digits n"

definition date_isoformat :: "date \<Rightarrow> string" where
  "date_isoformat d =
     zero_pad 4 (d_year d) @ ''-'' @ zero_pad 2 (d_month d) @ ''-'' @ zero_pad 2 (d_day d)"

definition datetime_isoformat :: "datetime \<Rightarrow> string" where
  "datetime_isoformat d =
     zero_pad 4 (dt_year d) @ ''-'' @ zero_pad 2 (dt_month d) @ ''-'' @ zero_pad 2 (dt_day d)
     @ ''T'' @ zero_pad 2 (dt_hour d) @ '':'' @ zero_pad 2 (dt_minute d) @ '':''
     @ zero_pad 2 (dt_second d)
     @ (if dt_microsecond d = 0 then [] else ''.'' @ zero_pad 6 (dt_microsecond d))"

subsection \<open>Values\<close>

text \<open>
  The values \<^verbatim>\<open>_sanitize_for_json\<close> distinguishes. An \<^verbatim>\<open>ObjectId\<close> and a \<^verbatim>\<open>DBRef\<close> are
  given by what \<^verbatim>\<open>str\<close> returns for them; a \<^verbatim>\<open>Decimal128\<close> by what
  \<^verbatim>\<open>float(obj.to_decimal())\<close> returns (\<open>None\<close> when that raises) and by its \<^verbatim>\<open>str\<close>.
  A dict is its items in iteration order, a set its elements in iteration order. Python
  floats are modelled by exact rationals: binary rounding is outside the model.
  \<open>POther\<close> stands for any object of another class, which the function returns as it is.
\<close>

datatype pyval =
    PNone
  | PBool bool
  | PInt int
  | PFloat rat
  | PStr string
  | PObjectId string
  | PDBRef string
  | PDecimal128 "rat option" string
  | PDatetime datetime
  | PDate date
  | PDict "(pyval \<times> pyval) list"
  | PList "pyval list"
  | PTuple "pyval list"
  | PSet "pyval list"
  | POther string

text \<open>\<^verbatim>\<open>_sanitize_for_json\<close>, branch by branch in the order of the source.\<close>

fun sanitize_for_json :: "pyval \<Rightarrow> pyval" where
  "sanitize_for_json (PObjectId s) = PStr s"
| "sanitize_for_json (PDBRef s) = PStr s"
| "sanitize_for_json (PDecimal128 f s) = (case f of Some x \<Rightarrow> PFloat x | None \<Rightarrow> PStr s)"
| "sanitize_for_json (PDatetime d) = PStr (datetime_isoformat d)"
| "sanitize_for_json (PDate d) = PStr (date_isoformat d)"
| "sanitize_for_json (PDict kvs) =
     PDict (map (\<lambda>(k, v). (k, sanitize_for_json v)) (filter (\<lambda>(k, v). k \<noteq> PStr ''_id'') kvs))"
| "sanitize_for_json (PList vs) = PList (map sanitize_for_json vs)"
| "sanitize_for_json (PTuple vs) = PList (map sanitize_for_json vs)"
| "sanitize_for_json (PSet vs) = PList (map sanitize_for_json vs)"
| "sanitize_for_json v = v"


section \<open>Exceptions and the \<^verbatim>\<open>datetime\<close> constructor\<close>

datatype py_exception = ValueError string | OverflowError string

definition is_leap :: "int \<Rightarrow> bool" where
  "is_leap y = (y mod 4 = 0 \<and> (y mod 100 \<noteq> 0 \<or> y mod 400 = 0))"

definition days_in_month :: "int \<Rightarrow> int \<Rightarrow> int" where
  "days_in_month y m =
     (if m = 2 then (if is_leap y then 29 else 28)
      else if m = 4 \<or> m = 6 \<or> m = 9 \<or> m = 11 then 30 else 31)"

text \<open>
  An argument of the constructor is converted to a C \<^verbatim>\<open>int\<close> first (CPython, 32-bit
  \<^verbatim>\<open>int\<close> and 64-bit \<^verbatim>\<open>long\<close>): a Python int outside that range raises \<^verbatim>\<open>OverflowError\<close>.
\<close>

definition fits_c_int :: "int \<Rightarrow> bool" where
  "fits_c_int v = (- (2 ^ 31) \<le> v \<and> v < 2 ^ 31)"

definition c_int :: "int \<Rightarrow> py_exception + int" where
  "c_int v =
     (if v < - (2 ^ 63) \<or> 2 ^ 63 \<le> v
        then Inl (OverflowError ''Python int too large to convert to C long'')
      else if 2 ^ 31 \<le> v then Inl (OverflowError ''signed integer is greater than maximum'')
      else if v < - (2 ^ 31) then Inl (OverflowError ''signed integer is less than minimum'')
      else Inr v)"

text \<open>
  \<^verbatim>\<open>datetime(year, month, day)\<close>: the arguments are converted in their order; then the
  constructor raises \<^verbatim>\<open>ValueError\<close> for a year outside 1..9999, a month outside 1..12 or
  a day outside the month, checked in this order.
\<close>

definition datetime_ymd :: "int \<Rightarrow> int \<Rightarrow> int \<Rightarrow> py_exception + datetime" where
  "datetime_ymd y m d =
     (case c_int y of Inl e \<Rightarrow> Inl e | Inr _ \<Rightarrow>
      (case c_int m of Inl e \<Rightarrow> Inl e | Inr _ \<Rightarrow>
       (case c_int d of Inl e \<Rightarrow> Inl e | Inr _ \<Rightarrow>
        (if \<not> (1 \<le> y \<and> y \<le> 9999)
           then Inl (ValueError (''year '' @ str_int y @ '' is out of range''))
         else if \<not> (1 \<le> m \<and> m \<le> 12) then Inl (ValueError ''month must be in 1..12'')
         else if \<not> (1 \<le> d \<and> d \<le> days_in_month y m)
           then Inl (ValueError ''day is out of range for month'')
         else Inr \<lparr>dt_year = nat y, dt_month = nat m, dt_day = nat d, dt_hour = 0, dt_minute = 0,
           dt_second = 0, dt_microsecond = 0\<rparr>))))"

section \<open>The collections\<close>

text \<open>
  The documents of the four collections the reports read, with the fields the pipelines
  use. \<open>_id\<close> is the document's ObjectId, given by its string. A stored date is modelled
  by the Date that \<^verbatim>\<open>$toDate\<close> coerces it to. An amount that is missing or null is \<open>None\<close>.
  Amounts are exact rationals.
\<close>

record patient =
  pat_oid :: string
  pat_patient_id :: int
  first_name :: string
  last_name :: string

record payment =
  pay_oid :: string
  payment_id :: int
  pay_invoice_id :: int
  payment_date :: datetime
  amount :: "rat option"

record invoice_line =
  line_oid :: string
  line_invoice_id :: int
  line_no :: int
  description :: string
  line_total :: "rat option"

record invoice =
  inv_oid :: string
  invoice_id :: int
  inv_patient_id :: int
  invoice_date :: datetime
  status :: string
  total_amount :: "rat option"
  patient_portion :: "rat option"

record database =
  Invoice :: "invoice list"
  Patient :: "patient list"
  Payment :: "payment list"
  InvoiceLine :: "invoice_line list"

section \<open>Aggregation stages\<close>

text \<open>
  \<^verbatim>\<open>$lookup\<close> of the patient by \<open>patient_id\<close> followed by \<^verbatim>\<open>$unwind\<close>: one output document per
  matching patient, none when the looked-up array is empty.
\<close>

definition lookup_patient :: "database \<Rightarrow> invoice \<Rightarrow> patient list" where
  "lookup_patient db iv = filter (\<lambda>p. pat_patient_id p = inv_patient_id iv) (Patient db)"

definition unwind_patient :: "database \<Rightarrow> invoice list \<Rightarrow> (invoice \<times> patient) list" where
  "unwind_patient db invs = concat (map (\<lambda>iv. map (\<lambda>p. (iv, p)) (lookup_patient db iv)) invs)"

text \<open>\<^verbatim>\<open>$lookup\<close> of all payments of an invoice (outstanding balances).\<close>

definition lookup_payments :: "database \<Rightarrow> invoice \<Rightarrow> payment list" where
  "lookup_payments db iv = filter (\<lambda>pay. pay_invoice_id pay = invoice_id iv) (Payment db)"

text \<open>
  \<^verbatim>\<open>$lookup\<close> with the sub-pipeline of the monthly statements: the payments of the invoice
  whose date is \<^verbatim>\<open>$lte end_date\<close>.
\<close>

definition lookup_payments_until :: "database \<Rightarrow> datetime \<Rightarrow> invoice \<Rightarrow> payment list" where
  "lookup_payments_until db end_date iv =
     filter (\<lambda>pay. pay_invoice_id pay = invoice_id iv \<and> dt_le (payment_date pay) end_date)
       (Payment db)"

definition lookup_lines :: "database \<Rightarrow> invoice \<Rightarrow> invoice_line list" where
  "lookup_lines db iv = filter (\<lambda>l. line_invoice_id l = invoice_id iv) (InvoiceLine db)"

text \<open>\<^verbatim>\<open>{"$sum": "$payments.amount"}\<close>: non-numeric amounts are ignored, no payment sums to 0.\<close>

definition amount_or_zero :: "payment \<Rightarrow> rat" where
  "amount_or_zero pay = (case amount pay of None \<Rightarrow> 0 | Some a \<Rightarrow> a)"

definition sum_amounts :: "payment list \<Rightarrow> rat" where
  "sum_amounts pays = sum_list (map amount_or_zero pays)"

text \<open>\<^verbatim>\<open>$subtract\<close>: null when the first operand is null or missing.\<close>

definition mongo_subtract :: "rat option \<Rightarrow> rat \<Rightarrow> rat option" where
  "mongo_subtract a b = (case a of None \<Rightarrow> None | Some x \<Rightarrow> Some (x - b))"

definition concat_name :: "patient \<Rightarrow> string" where
  "concat_name p = first_name p @ '' '' @ last_name p"

section \<open>Outstanding balances\<close>

record balance_row =
  ob_oid :: string
  ob_patient_name :: string
  ob_patient_id :: int
  ob_invoice_id :: int
  ob_total_amount :: "rat option"
  ob_patient_portion :: "rat option"
  ob_total_paid :: rat
  ob_balance_due :: "rat option"

text \<open>The \<^verbatim>\<open>$project\<close> stage of \<^verbatim>\<open>get_outstanding_balances\<close>.\<close>

definition project_balance :: "database \<Rightarrow> invoice \<times> patient \<Rightarrow> balance_row" where
  "project_balance db ip =
     (let iv = fst ip; payments = lookup_payments db iv in
      \<lparr>ob_oid = inv_oid iv,
       ob_patient_name = concat_name (snd ip),
       ob_patient_id = inv_patient_id iv,
       ob_invoice_id = invoice_id iv,
       ob_total_amount = total_amount iv,
       ob_patient_portion = patient_portion iv,
       ob_total_paid = sum_amounts payments,
       ob_balance_due = mongo_subtract (patient_portion iv) (sum_amounts payments)\<rparr>)"

text \<open>\<^verbatim>\<open>{"$gt": 0}\<close> on a field: null is not greater than a number.\<close>

definition gt_zero :: "rat option \<Rightarrow> bool" where
  "gt_zero v = (case v of None \<Rightarrow> False | Some x \<Rightarrow> 0 < x)"

text \<open>
  The pipeline up to \<^verbatim>\<open>$project\<close>: one document for every invoice that passes the first
  \<^verbatim>\<open>$match\<close> and is joined with a patient. The last \<^verbatim>\<open>$match\<close> keeps the documents with
  a positive balance.
\<close>

definition outstanding_projected :: "database \<Rightarrow> balance_row list" where
  "outstanding_projected db =
     map (project_balance db)
       (unwind_patient db (filter (\<lambda>iv. status iv \<noteq> ''paid'') (Invoice db)))"

definition get_outstanding_balances :: "database \<Rightarrow> balance_row list" where
  "get_outstanding_balances db =
     filter (\<lambda>r. gt_zero (ob_balance_due r)) (outstanding_projected db)"


section \<open>Monthly statements\<close>

subsection \<open>The documents the pipeline returns\<close>

text \<open>The documents of the \<open>payments\<close> and \<open>lines\<close> arrays, as the driver returns them.\<close>

definition num_val :: "rat option \<Rightarrow> pyval" where
  "num_val v = (case v of None \<Rightarrow> PNone | Some x \<Rightarrow> PFloat x)"

definition payment_doc :: "payment \<Rightarrow> pyval" where
  "payment_doc pay = PDict
     [(PStr ''_id'', PObjectId (pay_oid pay)),
      (PStr ''payment_id'', PInt (payment_id pay)),
      (PStr ''invoice_id'', PInt (pay_invoice_id pay)),
      (PStr ''payment_date'', PDatetime (payment_date pay)),
      (PStr ''amount'', num_val (amount pay))]"

definition line_doc :: "invoice_line \<Rightarrow> pyval" where
  "line_doc l = PDict
     [(PStr ''_id'', PObjectId (line_oid l)),
      (PStr ''invoice_id'', PInt (line_invoice_id l)),
      (PStr ''line_no'', PInt (line_no l)),
      (PStr ''description'', PStr (description l)),
      (PStr ''line_total'', num_val (line_total l))]"

text \<open>A document after the \<^verbatim>\<open>$project\<close> stage of \<^verbatim>\<open>get_monthly_statements\<close>.\<close>

record agg_row =
  row_oid :: string
  row_invoice_id :: int
  row_invoice_date :: datetime
  row_invoice_date_dt :: datetime
  row_patient_id :: int
  row_patient_name :: string
  row_total_amount :: "rat option"
  row_patient_portion :: "rat option"
  row_total_paid :: rat
  row_balance_due :: "rat option"
  row_lines :: "invoice_line list"
  row_payments :: "payment list"

text \<open>
  The \<^verbatim>\<open>$match\<close> on \<open>invoice_date_dt\<close>:
  \<^verbatim>\<open>{"$gte": start_date, "$lt": end_date}\<close>.
\<close>

definition month_match :: "datetime \<Rightarrow> datetime \<Rightarrow> invoice \<Rightarrow> bool" where
  "month_match start_date end_date iv =
     (dt_le start_date (invoice_date iv) \<and> dt_lt (invoice_date iv) end_date)"

text \<open>
  The stages after \<^verbatim>\<open>$unwind\<close>, for one invoice joined with its patient: the two
  \<^verbatim>\<open>$lookup\<close>s, \<^verbatim>\<open>$addFields\<close> and \<^verbatim>\<open>$project\<close>.
\<close>

definition project_row :: "database \<Rightarrow> datetime \<Rightarrow> invoice \<times> patient \<Rightarrow> agg_row" where
  "project_row db end_date ip =
     (let iv = fst ip;
          payments = lookup_payments_until db end_date iv;
          lines = lookup_lines db iv in
      \<lparr>row_oid = inv_oid iv,
       row_invoice_id = invoice_id iv,
       row_invoice_date = invoice_date iv,
       row_invoice_date_dt = invoice_date iv,
       row_patient_id = inv_patient_id iv,
       row_patient_name = concat_name (snd ip),
       row_total_amount = total_amount iv,
       row_patient_portion = patient_portion iv,
       row_total_paid = sum_amounts payments,
       row_balance_due = mongo_subtract (patient_portion iv) (sum_amounts payments),
       row_lines = lines,
       row_payments = payments\<rparr>)"

definition monthly_pipeline :: "database \<Rightarrow> datetime \<Rightarrow> datetime \<Rightarrow> agg_row list" where
  "monthly_pipeline db start_date end_date =
     map (project_row db end_date)
       (unwind_patient db (filter (month_match start_date end_date) (Invoice db)))"

subsection \<open>Sanitised rows\<close>

text \<open>
  A row after \<^verbatim>\<open>_sanitize_for_json\<close>: \<open>_id\<close> is dropped, the dates are ISO strings, the
  documents of \<open>lines\<close> and \<open>payments\<close> are sanitised.
\<close>

record json_row =
  jr_invoice_id :: int
  jr_invoice_date :: string
  jr_invoice_date_dt :: string
  jr_patient_id :: int
  jr_patient_name :: string
  jr_total_amount :: "rat option"
  jr_patient_portion :: "rat option"
  jr_total_paid :: rat
  jr_balance_due :: "rat option"
  jr_lines :: "pyval list"
  jr_payments :: "pyval list"

definition sanitize_row :: "agg_row \<Rightarrow> json_row" where
  "sanitize_row r =
     \<lparr>jr_invoice_id = row_invoice_id r,
      jr_invoice_date = datetime_isoformat (row_invoice_date r),
      jr_invoice_date_dt = datetime_isoformat (row_invoice_date_dt r),
      jr_patient_id = row_patient_id r,
      jr_patient_name = row_patient_name r,
      jr_total_amount = row_total_amount r,
      jr_patient_portion = row_patient_portion r,
      jr_total_paid = row_total_paid r,
      jr_balance_due = row_balance_due r,
      jr_lines = map (\<lambda>l. sanitize_for_json (line_doc l)) (row_lines r),
      jr_payments = map (\<lambda>p. sanitize_for_json (payment_doc p)) (row_payments r)\<rparr>"

subsection \<open>Grouping by patient\<close>

record invoice_entry =
  e_invoice_id :: int
  e_invoice_date :: string
  e_total_amount :: "rat option"
  e_patient_portion :: "rat option"
  e_total_paid :: rat
  e_balance_due :: rat
  e_lines :: "pyval list"
  e_payments :: "pyval list"

record patient_statement =
  ps_patient_id :: int
  ps_patient_name :: string
  ps_invoices :: "invoice_entry list"
  total_invoiced :: rat
  payments_received :: rat
  balance :: rat

text \<open>\<^verbatim>\<open>x or 0.0\<close> for a number or \<^verbatim>\<open>None\<close>: \<^verbatim>\<open>None\<close> and zero are falsy.\<close>

definition or_zero :: "rat option \<Rightarrow> rat" where
  "or_zero v = (case v of None \<Rightarrow> 0 | Some x \<Rightarrow> if x = 0 then 0 else x)"

text \<open>\<^verbatim>\<open>xs or []\<close> for a list.\<close>

definition or_empty :: "'a list \<Rightarrow> 'a list" where
  "or_empty xs = (if xs = [] then [] else xs)"

definition new_statement :: "json_row \<Rightarrow> patient_statement" where
  "new_statement iv =
     \<lparr>ps_patient_id = jr_patient_id iv, ps_patient_name = jr_patient_name iv, ps_invoices = [],
      total_invoiced = 0, payments_received = 0, balance = 0\<rparr>"

definition invoice_entry_of :: "json_row \<Rightarrow> invoice_entry" where
  "invoice_entry_of iv =
     \<lparr>e_invoice_id = jr_invoice_id iv,
      e_invoice_date = jr_invoice_date iv,
      e_total_amount = jr_total_amount iv,
      e_patient_portion = jr_patient_portion iv,
      e_total_paid = or_zero (Some (jr_total_paid iv)),
      e_balance_due = or_zero (jr_balance_due iv),
      e_lines = or_empty (jr_lines iv),
      e_payments = or_empty (jr_payments iv)\<rparr>"

definition add_invoice :: "json_row \<Rightarrow> patient_statement \<Rightarrow> patient_statement" where
  "add_invoice iv p =
     p\<lparr>ps_invoices := ps_invoices p @ [invoice_entry_of iv],
       total_invoiced := total_invoiced p + or_zero (jr_patient_portion iv),
       payments_received := payments_received p + or_zero (Some (jr_total_paid iv)),
       balance := balance p + or_zero (jr_balance_due iv)\<rparr>"

text \<open>
  The dict \<open>patients\<close>, as its items in insertion order. \<open>dict_modify\<close> is the in-place
  update of the value stored under a key.
\<close>

fun dict_modify :: "'k \<Rightarrow> ('v \<Rightarrow> 'v) \<Rightarrow> ('k \<times> 'v) list \<Rightarrow> ('k \<times> 'v) list" where
  "dict_modify k f [] = []"
| "dict_modify k f ((k', v) # kvs) =
     (if k' = k then (k', f v) # kvs else (k', v) # dict_modify k f kvs)"

text \<open>One iteration of \<^verbatim>\<open>for inv in invoices\<close>.\<close>

definition group_step ::
  "(int \<times> patient_statement) list \<Rightarrow> json_row \<Rightarrow> (int \<times> patient_statement) list" where
  "group_step patients iv =
     (let pid = jr_patient_id iv;
          patients1 = (if map_of patients pid = None then patients @ [(pid, new_statement iv)]
                       else patients)
      in dict_modify pid (add_invoice iv) patients1)"

definition group_invoices :: "json_row list \<Rightarrow> (int \<times> patient_statement) list" where
  "group_invoices invoices = foldl group_step [] invoices"

subsection \<open>Paid and unpaid buckets\<close>

text \<open>
  \<^verbatim>\<open>round(x, 2)\<close>: the nearest multiple of 0.01, a tie going to the even neighbour.
\<close>

definition round_half_even :: "rat \<Rightarrow> int" where
  "round_half_even x =
     (let f = \<lfloor>x\<rfloor>; d = x - of_int f in
      if d < 1 / 2 then f else if 1 / 2 < d then f + 1 else if even f then f else f + 1)"

definition py_round2 :: "rat \<Rightarrow> rat" where
  "py_round2 x = of_int (round_half_even (x * 100)) / 100"

record bucket_totals =
  t_total_invoiced :: rat
  t_payments_received :: rat
  t_balance :: rat

definition zero_totals :: bucket_totals where
  "zero_totals = \<lparr>t_total_invoiced = 0, t_payments_received = 0, t_balance = 0\<rparr>"

definition add_totals :: "bucket_totals \<Rightarrow> patient_statement \<Rightarrow> bucket_totals" where
  "add_totals t p =
     \<lparr>t_total_invoiced = t_total_invoiced t + total_invoiced p,
      t_payments_received = t_payments_received t + payments_received p,
      t_balance = t_balance t + balance p\<rparr>"

record buckets =
  paid_list :: "patient_statement list"
  unpaid_list :: "patient_statement list"
  totals_paid :: bucket_totals
  totals_unpaid :: bucket_totals

text \<open>One iteration of \<^verbatim>\<open>for p in patients.values()\<close>.\<close>

definition classify_step :: "buckets \<Rightarrow> patient_statement \<Rightarrow> buckets" where
  "classify_step b p =
     (if py_round2 (balance p) \<le> 0
      then b\<lparr>paid_list := paid_list b @ [p], totals_paid := add_totals (totals_paid b) p\<rparr>
      else b\<lparr>unpaid_list := unpaid_list b @ [p], totals_unpaid := add_totals (totals_unpaid b) p\<rparr>)"

definition classify :: "patient_statement list \<Rightarrow> buckets" where
  "classify ps =
     foldl classify_step
       \<lparr>paid_list = [], unpaid_list = [], totals_paid = zero_totals, totals_unpaid = zero_totals\<rparr> ps"

subsection \<open>The result\<close>

record bucket =
  b_patients :: "patient_statement list"
  b_totals :: bucket_totals

record summary =
  sm_paid :: bucket
  sm_unpaid :: bucket

record statements =
  st_month :: string
  st_summary :: summary

text \<open>
  The last \<^verbatim>\<open>_sanitize_for_json(result)\<close>: of the values of the result only the documents of
  \<open>lines\<close> and \<open>payments\<close> are not numbers, strings or the containers built above.
\<close>

definition sanitize_entry :: "invoice_entry \<Rightarrow> invoice_entry" where
  "sanitize_entry e =
     e\<lparr>e_lines := map sanitize_for_json (e_lines e),
       e_payments := map sanitize_for_json (e_payments e)\<rparr>"

definition sanitize_statement :: "patient_statement \<Rightarrow> patient_statement" where
  "sanitize_statement p = p\<lparr>ps_invoices := map sanitize_entry (ps_invoices p)\<rparr>"

definition sanitize_bucket :: "bucket \<Rightarrow> bucket" where
  "sanitize_bucket b = b\<lparr>b_patients := map sanitize_statement (b_patients b)\<rparr>"

definition sanitize_statements :: "statements \<Rightarrow> statements" where
  "sanitize_statements res =
     res\<lparr>st_summary :=
       \<lparr>sm_paid = sanitize_bucket (sm_paid (st_summary res)),
        sm_unpaid = sanitize_bucket (sm_unpaid (st_summary res))\<rparr>\<rparr>"

text \<open>The first lines of the function: the bounds of the month, or the constructor's error.\<close>

definition month_range :: "int \<Rightarrow> int \<Rightarrow> py_exception + datetime \<times> datetime" where
  "month_range month year =
     (case datetime_ymd year month 1 of
        Inl e \<Rightarrow> Inl e
      | Inr start_date \<Rightarrow>
          (case (if month = 12 then datetime_ymd (year + 1) 1 1
                 else datetime_ymd year (month + 1) 1) of
             Inl e \<Rightarrow> Inl e
           | Inr end_date \<Rightarrow> Inr (start_date, end_date)))"

definition build_result :: "int \<Rightarrow> int \<Rightarrow> buckets \<Rightarrow> statements" where
  "build_result month year b =
     \<lparr>st_month = str_int month @ ''/'' @ str_int year,
      st_summary =
        \<lparr>sm_paid = \<lparr>b_patients = paid_list b, b_totals = totals_paid b\<rparr>,
         sm_unpaid = \<lparr>b_patients = unpaid_list b, b_totals = totals_unpaid b\<rparr>\<rparr>\<rparr>"

definition get_monthly_statements :: "database \<Rightarrow> int \<Rightarrow> int \<Rightarrow> py_exception + statements" where
  "get_monthly_statements db month year =
     (case month_range month year of
        Inl e \<Rightarrow> Inl e
      | Inr (start_date, end_date) \<Rightarrow>
          (let invoices = map sanitize_row (monthly_pipeline db start_date end_date);
               patients = group_invoices invoices;
               b = classify (map snd patients)
           in Inr (sanitize_statements (build_result month year b))))"

section \<open>Rows and results as Python values\<close>

text \<open>
  The dicts behind the records above: a pipeline row as the driver returns it, a sanitised
  row, and the result with its nested dicts. They relate \<open>sanitize_row\<close> and
  \<open>sanitize_statements\<close> to \<open>sanitize_for_json\<close>.
\<close>

definition row_doc :: "agg_row \<Rightarrow> pyval" where
  "row_doc r = PDict
     [(PStr ''_id'', PObjectId (row_oid r)),
      (PStr ''invoice_id'', PInt (row_invoice_id r)),
      (PStr ''invoice_date'', PDatetime (row_invoice_date r)),
      (PStr ''invoice_date_dt'', PDatetime (row_invoice_date_dt r)),
      (PStr ''patient_id'', PInt (row_patient_id r)),
      (PStr ''patient_name'', PStr (row_patient_name r)),
      (PStr ''total_amount'', num_val (row_total_amount r)),
      (PStr ''patient_portion'', num_val (row_patient_portion r)),
      (PStr ''total_paid'', PFloat (row_total_paid r)),
      (PStr ''balance_due'', num_val (row_balance_due r)),
      (PStr ''lines'', PList (map line_doc (row_lines r))),
      (PStr ''payments'', PList (map payment_doc (row_payments r)))]"

definition json_row_doc :: "json_row \<Rightarrow> pyval" where
  "json_row_doc r = PDict
     [(PStr ''invoice_id'', PInt (jr_invoice_id r)),
      (PStr ''invoice_date'', PStr (jr_invoice_date r)),
      (PStr ''invoice_date_dt'', PStr (jr_invoice_date_dt r)),
      (PStr ''patient_id'', PInt (jr_patient_id r)),
      (PStr ''patient_name'', PStr (jr_patient_name r)),
      (PStr ''total_amount'', num_val (jr_total_amount r)),
      (PStr ''patient_portion'', num_val (jr_patient_portion r)),
      (PStr ''total_paid'', PFloat (jr_total_paid r)),
      (PStr ''balance_due'', num_val (jr_balance_due r)),
      (PStr ''lines'', PList (jr_lines r)),
      (PStr ''payments'', PList (jr_payments r))]"

definition entry_doc :: "invoice_entry \<Rightarrow> pyval" where
  "entry_doc e = PDict
     [(PStr ''invoice_id'', PInt (e_invoice_id e)),
      (PStr ''invoice_date'', PStr (e_invoice_date e)),
      (PStr ''total_amount'', num_val (e_total_amount e)),
      (PStr ''patient_portion'', num_val (e_patient_portion e)),
      (PStr ''total_paid'', PFloat (e_total_paid e)),
      (PStr ''balance_due'', PFloat (e_balance_due e)),
      (PStr ''lines'', PList (e_lines e)),
      (PStr ''payments'', PList (e_payments e))]"

definition statement_doc :: "patient_statement \<Rightarrow> pyval" where
  "statement_doc p = PDict
     [(PStr ''patient_id'', PInt (ps_patient_id p)),
      (PStr ''patient_name'', PStr (ps_patient_name p)),
      (PStr ''invoices'', PList (map entry_doc (ps_invoices p))),
      (PStr ''total_invoiced'', PFloat (total_invoiced p)),
      (PStr ''payments_received'', PFloat (payments_received p)),
      (PStr ''balance'', PFloat (balance p))]"

definition totals_doc :: "bucket_totals \<Rightarrow> pyval" where
  "totals_doc t = PDict
     [(PStr ''total_invoiced'', PFloat (t_total_invoiced t)),
      (PStr ''payments_received'', PFloat (t_payments_received t)),
      (PStr ''balance'', PFloat (t_balance t))]"

definition bucket_doc :: "bucket \<Rightarrow> pyval" where
  "bucket_doc b = PDict
     [(PStr ''patients'', PList (map statement_doc (b_patients b))),
      (PStr ''totals'', totals_doc (b_totals b))]"

definition statements_doc :: "statements \<Rightarrow> pyval" where
  "statements_doc res = PDict
     [(PStr ''month'', PStr (st_month res)),
      (PStr ''summary'', PDict
         [(PStr ''paid'', bucket_doc (sm_paid (st_summary res))),
          (PStr ''unpaid'', bucket_doc (sm_unpaid (st_summary res)))])]"

section \<open>HTTP routes\<close>

text \<open>
  A response is its status code and its JSON body. \<open>InternalErrorBody d\<close> is the body
  \<^verbatim>\<open>{"error": "internal server error", "detail": d, "trace": ...}\<close>; the text of the
  traceback is not modelled.
\<close>

datatype body =
    ErrorBody string
  | InternalErrorBody string
  | StatementsBody statements
  | PatientBody patient

record response =
  status_code :: nat
  body :: body

text \<open>
  \<^verbatim>\<open>GET /statements/monthly\<close> (Flask). \<^verbatim>\<open>request.args.get(name, type=int)\<close> is \<open>None\<close> when
  the parameter is missing or is not an integer. The calls of the report service are
  recorded, to tell a request that computes a report from one that does not.
\<close>

record request_args =
  arg_month :: "int option"
  arg_year :: "int option"

datatype service_call = MonthlyStatementsCall int int

text \<open>\<^verbatim>\<open>not v\<close> for an int or \<^verbatim>\<open>None\<close>.\<close>

definition falsy :: "int option \<Rightarrow> bool" where
  "falsy v = (case v of None \<Rightarrow> True | Some n \<Rightarrow> n = 0)"

text \<open>\<^verbatim>\<open>str(e)\<close>.\<close>

definition exception_str :: "py_exception \<Rightarrow> string" where
  "exception_str e = (case e of ValueError m \<Rightarrow> m | OverflowError m \<Rightarrow> m)"

text \<open>The body of the \<^verbatim>\<open>try\<close> block: a response, or the exception raised in it.\<close>

definition monthly_try_body ::
  "database \<Rightarrow> request_args \<Rightarrow> (py_exception + response) \<times> service_call list" where
  "monthly_try_body db args =
     (let month = arg_month args; year = arg_year args in
      if falsy month \<or> falsy year
      then (Inr \<lparr>status_code = 400, body = ErrorBody ''Month and Year required''\<rparr>, [])
      else (case get_monthly_statements db (the month) (the year) of
              Inl e \<Rightarrow> (Inl e, [MonthlyStatementsCall (the month) (the year)])
            | Inr results \<Rightarrow>
                (Inr \<lparr>status_code = 200, body = StatementsBody (sanitize_statements results)\<rparr>,
                 [MonthlyStatementsCall (the month) (the year)])))"

text \<open>
  The route: \<^verbatim>\<open>except Exception\<close> turns an exception of the block into the 500 response.
  The result is the response or an exception that leaves the route, the database after
  the request and the recorded calls.
\<close>

definition statements_monthly_route ::
  "database \<Rightarrow> request_args \<Rightarrow> (py_exception + response) \<times> database \<times> service_call list" where
  "statements_monthly_route db args =
     (case monthly_try_body db args of
        (Inl e, calls) \<Rightarrow>
          (Inr \<lparr>status_code = 500, body = InternalErrorBody (exception_str e)\<rparr>, db, calls)
      | (Inr r, calls) \<Rightarrow> (Inr r, db, calls))"

text \<open>
  Modelled from the spec: \<^verbatim>\<open>PatientCRUD.get\<close>, whose modules
  (\<^verbatim>\<open>clinic_api/services/patient.py\<close>, \<^verbatim>\<open>crud_patient.py\<close>) are not among the sources.
  The specification describes the CRUD reads as direct pass-through: one collection, one
  filter, return the record. So the call looks the patient collection up by \<open>patient_id\<close>
  and returns the first match, or \<open>None\<close>.
\<close>

definition PatientCRUD_get :: "database \<Rightarrow> int \<Rightarrow> patient option" where
  "PatientCRUD_get db patient_id = find (\<lambda>p. pat_patient_id p = patient_id) (Patient db)"

text \<open>\<^verbatim>\<open>GET /patients/<patient_id>\<close> of the Flask application.\<close>

definition flask_get_patient :: "database \<Rightarrow> int \<Rightarrow> response \<times> database" where
  "flask_get_patient db patient_id =
     (case PatientCRUD_get db patient_id of
        None \<Rightarrow> (\<lparr>status_code = 404, body = ErrorBody ''Patient not found''\<rparr>, db)
      | Some p \<Rightarrow> (\<lparr>status_code = 200, body = PatientBody p\<rparr>, db))"

text \<open>
  \<^verbatim>\<open>GET /patients/{patient_id}\<close> of the FastAPI application: the handler returns the record
  or raises \<^verbatim>\<open>HTTPException(status_code=404, detail="Patient not found")\<close>.
\<close>

datatype http_exception = HTTPException nat string

definition fastapi_get_patient :: "database \<Rightarrow> int \<Rightarrow> (http_exception + patient) \<times> database" where
  "fastapi_get_patient db patient_id =
     (case PatientCRUD_get db patient_id of
        None \<Rightarrow> (Inl (HTTPException 404 ''Patient not found''), db)
      | Some p \<Rightarrow> (Inr p, db))"

section \<open>Declarative descriptions\<close>

text \<open>
  What the two loops of \<^verbatim>\<open>get_monthly_statements\<close> compute, written without loops: the
  patient ids in order of first occurrence, the statement of a patient from the rows of that
  patient, the two buckets as filters and their totals as sums.
\<close>

definition first_occurrences :: "'a list \<Rightarrow> 'a list" where
  "first_occurrences xs = rev (remdups (rev xs))"

definition rows_of :: "int \<Rightarrow> json_row list \<Rightarrow> json_row list" where
  "rows_of pid rows = filter (\<lambda>r. jr_patient_id r = pid) rows"

definition statement_of :: "int \<Rightarrow> json_row list \<Rightarrow> patient_statement" where
  "statement_of pid rs =
     \<lparr>ps_patient_id = pid,
      ps_patient_name = (case rs of [] \<Rightarrow> [] | r # _ \<Rightarrow> jr_patient_name r),
      ps_invoices = map invoice_entry_of rs,
      total_invoiced = sum_list (map (\<lambda>r. or_zero (jr_patient_portion r)) rs),
      payments_received = sum_list (map jr_total_paid rs),
      balance = sum_list (map (\<lambda>r. or_zero (jr_balance_due r)) rs)\<rparr>"

definition grouped :: "json_row list \<Rightarrow> (int \<times> patient_statement) list" where
  "grouped rows = map (\<lambda>pid. (pid, statement_of pid (rows_of pid rows)))
     (first_occurrences (map jr_patient_id rows))"

definition is_paid :: "patient_statement \<Rightarrow> bool" where
  "is_paid p = (py_round2 (balance p) \<le> 0)"

definition totals_of :: "patient_statement list \<Rightarrow> bucket_totals" where
  "totals_of ps =
     \<lparr>t_total_invoiced = sum_list (map total_invoiced ps),
      t_payments_received = sum_list (map payments_received ps),
      t_balance = sum_list (map balance ps)\<rparr>"

text \<open>The sanitised rows of a month, and rows whose documents sanitising leaves unchanged.\<close>

definition statement_rows :: "database \<Rightarrow> datetime \<Rightarrow> datetime \<Rightarrow> json_row list" where
  "statement_rows db s e = map sanitize_row (monthly_pipeline db s e)"

definition clean_row :: "json_row \<Rightarrow> bool" where
  "clean_row r = (list_all (\<lambda>v. sanitize_for_json v = v) (jr_lines r) \<and>
     list_all (\<lambda>v. sanitize_for_json v = v) (jr_payments r))"

section \<open>The invoices and the balance of a patient\<close>

text \<open>
  The invoices issued in a month joined with the patient documents (the pipeline up to
  \<^verbatim>\<open>$unwind\<close>: one pair per invoice and per Patient document that carries the invoice's
  patient id); the invoices of one patient issued in the month, each once, as the Invoice
  collection has them; the number of Patient documents that carry a patient id; the portion,
  the amount paid and the balance of an invoice as of the cutoff, null counting as zero; and
  the balance of a patient, the sum over the patient's invoices of the month.
\<close>

definition billed_pairs :: "database \<Rightarrow> datetime \<Rightarrow> datetime \<Rightarrow> (invoice \<times> patient) list" where
  "billed_pairs db s e = unwind_patient db (filter (month_match s e) (Invoice db))"







text \<open>The statements of a result, paid first; a patient id with an invoice in the month.\<close>

definition result_patients :: "statements \<Rightarrow> patient_statement list" where
  "result_patients res =
     b_patients (sm_paid (st_summary res)) @ b_patients (sm_unpaid (st_summary res))"


section \<open>What a sanitised value contains\<close>






section \<open>The monthly statement as a sequence of steps\<close>

text \<open>
  The sequence in the words of the specification: match the invoices dated in the half-open
  range from the first day of the month to the first day of the next month (January 1 of the
  next year for month 12); look up the patient, the payments dated on or before the cutoff
  and the invoice lines; compute the totals of each invoice; group by patient; bucket the
  patients into paid and unpaid; sum the totals of each bucket.
\<close>

definition midnight :: "nat \<Rightarrow> nat \<Rightarrow> nat \<Rightarrow> datetime" where
  "midnight y m d = \<lparr>dt_year = y, dt_month = m, dt_day = d, dt_hour = 0, dt_minute = 0,
     dt_second = 0, dt_microsecond = 0\<rparr>"

definition first_day :: "int \<Rightarrow> int \<Rightarrow> datetime" where
  "first_day year month = midnight (nat year) (nat month) 1"

definition next_first_day :: "int \<Rightarrow> int \<Rightarrow> datetime" where
  "next_first_day year month =
     (if month = 12 then first_day (year + 1) 1 else first_day year (month + 1))"

definition valid_month :: "int \<Rightarrow> int \<Rightarrow> bool" where
  "valid_month month year =
     (1 \<le> month \<and> month \<le> 12 \<and> 1 \<le> year \<and> year \<le> 9999 \<and> \<not> (month = 12 \<and> year = 9999))"

definition spec_match :: "database \<Rightarrow> int \<Rightarrow> int \<Rightarrow> invoice list" where
  "spec_match db month year =
     [iv \<leftarrow> Invoice db. dt_le (first_day year month) (invoice_date iv) \<and>
        dt_lt (invoice_date iv) (next_first_day year month)]"

record looked_up =
  lu_invoice :: invoice
  lu_patient :: patient
  lu_payments :: "payment list"
  lu_lines :: "invoice_line list"

definition spec_lookups :: "database \<Rightarrow> datetime \<Rightarrow> invoice list \<Rightarrow> looked_up list" where
  "spec_lookups db cutoff invs =
     concat (map (\<lambda>iv.
       map (\<lambda>p.
         \<lparr>lu_invoice = iv, lu_patient = p,
          lu_payments = [pay \<leftarrow> Payment db. pay_invoice_id pay = invoice_id iv \<and>
            dt_le (payment_date pay) cutoff],
          lu_lines = [l \<leftarrow> InvoiceLine db. line_invoice_id l = invoice_id iv]\<rparr>)
         [p \<leftarrow> Patient db. pat_patient_id p = inv_patient_id iv]) invs)"

definition spec_invoice_totals :: "looked_up \<Rightarrow> json_row" where
  "spec_invoice_totals lu =
     (let iv = lu_invoice lu; total_paid = sum_list (map amount_or_zero (lu_payments lu)) in
      \<lparr>jr_invoice_id = invoice_id iv,
       jr_invoice_date = datetime_isoformat (invoice_date iv),
       jr_invoice_date_dt = datetime_isoformat (invoice_date iv),
       jr_patient_id = inv_patient_id iv,
       jr_patient_name = first_name (lu_patient lu) @ '' '' @ last_name (lu_patient lu),
       jr_total_amount = total_amount iv,
       jr_patient_portion = patient_portion iv,
       jr_total_paid = total_paid,
       jr_balance_due = (case patient_portion iv of None \<Rightarrow> None | Some x \<Rightarrow> Some (x - total_paid)),
       jr_lines = map (\<lambda>l. sanitize_for_json (line_doc l)) (lu_lines lu),
       jr_payments = map (\<lambda>p. sanitize_for_json (payment_doc p)) (lu_payments lu)\<rparr>)"

definition spec_group :: "json_row list \<Rightarrow> patient_statement list" where
  "spec_group rows =
     map (\<lambda>pid. statement_of pid [r \<leftarrow> rows. jr_patient_id r = pid])
       (first_occurrences (map jr_patient_id rows))"

definition spec_bucket :: "patient_statement list \<Rightarrow> patient_statement list \<times> patient_statement list" where
  "spec_bucket sts = ([p \<leftarrow> sts. py_round2 (balance p) \<le> 0], [p \<leftarrow> sts. \<not> py_round2 (balance p) \<le> 0])"

definition spec_sum :: "patient_statement list \<Rightarrow> bucket" where
  "spec_sum ps =
     \<lparr>b_patients = ps,
      b_totals = \<lparr>t_total_invoiced = sum_list (map total_invoiced ps),
                  t_payments_received = sum_list (map payments_received ps),
                  t_balance = sum_list (map balance ps)\<rparr>\<rparr>"

definition monthly_statements_spec :: "database \<Rightarrow> int \<Rightarrow> int \<Rightarrow> statements" where
  "monthly_statements_spec db month year =
     (let matched = spec_match db month year;
          looked = spec_lookups db (next_first_day year month) matched;
          rows = map spec_invoice_totals looked;
          sts = spec_group rows;
          buckets = spec_bucket sts
      in \<lparr>st_month = str_int month @ ''/'' @ str_int year,
          st_summary = \<lparr>sm_paid = spec_sum (fst buckets), sm_unpaid = spec_sum (snd buckets)\<rparr>\<rparr>)"

section \<open>Examples\<close>

text \<open>
  A database for January 2024. Patient 1 has a paid invoice and an invoice with 30 open, one
  of its payments dated on the cutoff and one after it; patient 2 has an invoice of 0.004
  and an invoice dated in February; invoice 13 names a patient that does not exist.
\<close>

definition example_db :: database where
  "example_db =
     \<lparr>Invoice =
        [\<lparr>inv_oid = ''a10'', invoice_id = 10, inv_patient_id = 1, invoice_date = midnight 2024 1 5,
          status = ''paid'', total_amount = Some 120, patient_portion = Some 100\<rparr>,
         \<lparr>inv_oid = ''a11'', invoice_id = 11, inv_patient_id = 1, invoice_date = midnight 2024 1 20,
          status = ''pending'', total_amount = Some 50, patient_portion = Some 50\<rparr>,
         \<lparr>inv_oid = ''a12'', invoice_id = 12, inv_patient_id = 2, invoice_date = midnight 2024 1 9,
          status = ''pending'', total_amount = Some 1, patient_portion = Some (1 / 250)\<rparr>,
         \<lparr>inv_oid = ''a13'', invoice_id = 13, inv_patient_id = 3, invoice_date = midnight 2024 1 9,
          status = ''pending'', total_amount = Some 7, patient_portion = Some 7\<rparr>,
         \<lparr>inv_oid = ''a14'', invoice_id = 14, inv_patient_id = 2, invoice_date = midnight 2024 2 1,
          status = ''pending'', total_amount = Some 9, patient_portion = Some 9\<rparr>],
      Patient =
        [\<lparr>pat_oid = ''b1'', pat_patient_id = 1, first_name = ''Ann'', last_name = ''Lee''\<rparr>,
         \<lparr>pat_oid = ''b2'', pat_patient_id = 2, first_name = ''Bo'', last_name = ''Ray''\<rparr>],
      Payment =
        [\<lparr>pay_oid = ''c1'', payment_id = 1, pay_invoice_id = 10, payment_date = midnight 2024 1 6,
          amount = Some 100\<rparr>,
         \<lparr>pay_oid = ''c2'', payment_id = 2, pay_invoice_id = 11, payment_date = midnight 2024 2 1,
          amount = Some 20\<rparr>,
         \<lparr>pay_oid = ''c3'', payment_id = 3, pay_invoice_id = 11, payment_date = midnight 2024 2 2,
          amount = Some 30\<rparr>],
      InvoiceLine =
        [\<lparr>line_oid = ''d1'', line_invoice_id = 10, line_no = 1, description = ''visit'',
          line_total = Some 120\<rparr>]\<rparr>"

definition orphan_invoice :: invoice where
  "orphan_invoice =
     \<lparr>inv_oid = ''a13'', invoice_id = 13, inv_patient_id = 3, invoice_date = midnight 2024 1 9,
      status = ''pending'', total_amount = Some 7, patient_portion = Some 7\<rparr>"

definition example_row :: agg_row where
  "example_row =
     \<lparr>row_oid = ''a11'', row_invoice_id = 11, row_invoice_date = midnight 2024 1 20,
      row_invoice_date_dt = midnight 2024 1 20, row_patient_id = 1, row_patient_name = ''Ann Lee'',
      row_total_amount = Some 50, row_patient_portion = Some 50, row_total_paid = 20,
      row_balance_due = Some 30, row_lines = [],
      row_payments = [\<lparr>pay_oid = ''c2'', payment_id = 2, pay_invoice_id = 11,
        payment_date = midnight 2024 2 1, amount = Some 20\<rparr>]\<rparr>"


definition example_settled_row :: balance_row where
  "example_settled_row =
     \<lparr>ob_oid = ''a11'', ob_patient_name = ''Ann Lee'', ob_patient_id = 1, ob_invoice_id = 11,
      ob_total_amount = Some 50, ob_patient_portion = Some 50, ob_total_paid = 50,
      ob_balance_due = Some 0\<rparr>"

definition example_patient_2 :: patient_statement where
  "example_patient_2 =
     \<lparr>ps_patient_id = 2, ps_patient_name = ''Bo Ray'',
      ps_invoices =
        [\<lparr>e_invoice_id = 12, e_invoice_date = ''2024-01-09T00:00:00'',
          e_total_amount = Some 1, e_patient_portion = Some (1 / 250),
          e_total_paid = 0, e_balance_due = 1 / 250, e_lines = [], e_payments = []\<rparr>],
      total_invoiced = 1 / 250, payments_received = 0, balance = 1 / 250\<rparr>"

definition example_patient_1 :: patient_statement where
  "example_patient_1 =
     \<lparr>ps_patient_id = 1, ps_patient_name = ''Ann Lee'',
      ps_invoices =
        [\<lparr>e_invoice_id = 10, e_invoice_date = ''2024-01-05T00:00:00'',
          e_total_amount = Some 120, e_patient_portion = Some 100,
          e_total_paid = 100, e_balance_due = 0,
          e_lines =
            [PDict [(PStr ''invoice_id'', PInt 10), (PStr ''line_no'', PInt 1),
               (PStr ''description'', PStr ''visit''), (PStr ''line_total'', PFloat 120)]],
          e_payments =
            [PDict [(PStr ''payment_id'', PInt 1), (PStr ''invoice_id'', PInt 10),
               (PStr ''payment_date'', PStr ''2024-01-06T00:00:00''),
               (PStr ''amount'', PFloat 100)]]\<rparr>,
         \<lparr>e_invoice_id = 11, e_invoice_date = ''2024-01-20T00:00:00'',
          e_total_amount = Some 50, e_patient_portion = Some 50,
          e_total_paid = 20, e_balance_due = 30, e_lines = [],
          e_payments =
            [PDict [(PStr ''payment_id'', PInt 2), (PStr ''invoice_id'', PInt 11),
               (PStr ''payment_date'', PStr ''2024-02-01T00:00:00''),
               (PStr ''amount'', PFloat 20)]]\<rparr>],
      total_invoiced = 150, payments_received = 120, balance = 30\<rparr>"

definition example_statements :: statements where
  "example_statements =
     \<lparr>st_month = ''1/2024'',
      st_summary =
        \<lparr>sm_paid =
           \<lparr>b_patients = [example_patient_2],
            b_totals =
              \<lparr>t_total_invoiced = 1 / 250, t_payments_received = 0, t_balance = 1 / 250\<rparr>\<rparr>,
         sm_unpaid =
           \<lparr>b_patients = [example_patient_1],
            b_totals =
              \<lparr>t_total_invoiced = 150, t_payments_received = 120, t_balance = 30\<rparr>\<rparr>\<rparr>\<rparr>"







section \<open>The grouping loop\<close>

text \<open>
  The loop over the rows leaves in the dict, for each patient id in order of first
  occurrence, the statement of the rows of that patient.
\<close>

lemma first_occurrences_snoc:
  "first_occurrences (xs @ [x]) = (if x \<in> set xs then first_occurrences xs else first_occurrences xs @ [x])"
  by (simp add: first_occurrences_def)

lemma set_first_occurrences [simp]: "set (first_occurrences xs) = set xs"
  by (simp add: first_occurrences_def)

lemma distinct_first_occurrences [simp]: "distinct (first_occurrences xs)"
  by (simp add: first_occurrences_def)

lemma or_zero_Some [simp]: "or_zero (Some x) = x"
  by (simp add: or_zero_def)

lemma or_zero_None [simp]: "or_zero None = 0"
  by (simp add: or_zero_def)

lemma dict_modify_map:
  "distinct ks \<Longrightarrow> dict_modify k g (map (\<lambda>x. (x, f x)) ks) = map (\<lambda>x. (x, if x = k then g (f x) else f x)) ks"
  by (induction ks) auto

lemma dict_modify_append_absent:
  "k \<notin> fst ` set kvs \<Longrightarrow> dict_modify k g (kvs @ [(k, v)]) = kvs @ [(k, g v)]"
  by (induction kvs) auto

lemma map_of_grouped:
  "map_of (grouped rows) pid = None \<longleftrightarrow> pid \<notin> jr_patient_id ` set rows"
  by (simp add: grouped_def map_of_eq_None_iff image_image)

lemma add_invoice_new: "add_invoice r (new_statement r) = statement_of (jr_patient_id r) [r]"
  by (simp add: add_invoice_def new_statement_def statement_of_def)

lemma add_invoice_statement_of:
  "rs \<noteq> [] \<Longrightarrow> add_invoice r (statement_of pid rs) = statement_of pid (rs @ [r])"
  by (cases rs) (simp_all add: add_invoice_def statement_of_def)

lemma rows_of_snoc: "rows_of pid (rows @ [r]) = (if jr_patient_id r = pid then rows_of pid rows @ [r] else rows_of pid rows)"
  by (simp add: rows_of_def)

lemma rows_of_empty_iff: "rows_of pid rows = [] \<longleftrightarrow> pid \<notin> jr_patient_id ` set rows"
  by (auto simp: rows_of_def filter_empty_conv)

lemma group_step_grouped: "group_step (grouped rows) r = grouped (rows @ [r])"
proof (cases "jr_patient_id r \<in> jr_patient_id ` set rows")
  case True
  then have "map_of (grouped rows) (jr_patient_id r) \<noteq> None"
    by (simp add: map_of_grouped)
  then have "group_step (grouped rows) r = dict_modify (jr_patient_id r) (add_invoice r) (grouped rows)"
    by (auto simp add: group_step_def Let_def)
  also have "\<dots> = map (\<lambda>pid. (pid, if pid = jr_patient_id r then add_invoice r (statement_of pid (rows_of pid rows)) else statement_of pid (rows_of pid rows)))
      (first_occurrences (map jr_patient_id rows))"
    unfolding grouped_def by (rule dict_modify_map) simp
  also have "\<dots> = grouped (rows @ [r])"
    using True
    by (auto simp: grouped_def first_occurrences_snoc rows_of_snoc add_invoice_statement_of rows_of_empty_iff)
  finally show ?thesis .
next
  case False
  then have "map_of (grouped rows) (jr_patient_id r) = None"
    by (simp add: map_of_grouped)
  then have "group_step (grouped rows) r =
      dict_modify (jr_patient_id r) (add_invoice r) (grouped rows @ [(jr_patient_id r, new_statement r)])"
    by (simp add: group_step_def Let_def)
  also have "\<dots> = grouped rows @ [(jr_patient_id r, add_invoice r (new_statement r))]"
    using False by (intro dict_modify_append_absent) (auto simp: grouped_def image_image)
  also have "\<dots> = grouped (rows @ [r])"
  proof -
    have "rows_of (jr_patient_id r) rows = []"
      using False by (simp add: rows_of_empty_iff)
    moreover have "\<forall>pid \<in> set (map jr_patient_id rows). rows_of pid (rows @ [r]) = rows_of pid rows"
      using False by (auto simp: rows_of_snoc)
    ultimately show ?thesis
      using False
      by (auto simp: grouped_def first_occurrences_snoc rows_of_snoc add_invoice_new)
  qed
  finally show ?thesis .
qed

lemma group_invoices_grouped: "group_invoices rows = grouped rows"
proof (induction rows rule: rev_induct)
  case Nil
  show ?case by (simp add: group_invoices_def grouped_def first_occurrences_def)
next
  case (snoc r rows)
  then show ?case by (simp add: group_invoices_def group_step_grouped)
qed


lemma grouped_member:
  assumes "p \<in> set (map snd (grouped rows))"
  shows "p = statement_of (ps_patient_id p) (rows_of (ps_patient_id p) rows)"
    and "ps_patient_id p \<in> jr_patient_id ` set rows"
  using assms by (auto simp: grouped_def statement_of_def)




section \<open>The bucketing loop and rounding\<close>

lemma add_totals_totals_of: "add_totals (totals_of ps) p = totals_of (ps @ [p])"
  by (simp add: add_totals_def totals_of_def)

lemma classify_filter:
  "classify ps =
     \<lparr>paid_list = filter is_paid ps, unpaid_list = filter (\<lambda>p. \<not> is_paid p) ps,
      totals_paid = totals_of (filter is_paid ps),
      totals_unpaid = totals_of (filter (\<lambda>p. \<not> is_paid p) ps)\<rparr>"
proof (induction ps rule: rev_induct)
  case Nil
  show ?case by (simp add: classify_def totals_of_def zero_totals_def)
next
  case (snoc p ps)
  have "classify (ps @ [p]) = classify_step (classify ps) p"
    by (simp add: classify_def)
  then show ?case
    by (simp add: snoc classify_step_def is_paid_def add_totals_totals_of)
qed


lemma round_half_even_nonpos: "round_half_even y \<le> 0 \<longleftrightarrow> y \<le> 1 / 2"
proof -
  define f where "f = \<lfloor>y\<rfloor>"
  define d where "d = y - of_int f"
  have d: "0 \<le> d" "d < 1"
    unfolding d_def f_def by linarith+
  have y: "y = of_int f + d"
    by (simp add: d_def)
  have r: "round_half_even y =
      (if d < 1 / 2 then f else if 1 / 2 < d then f + 1 else if even f then f else f + 1)"
    by (simp add: round_half_even_def Let_def d_def f_def)
  consider "f \<le> - 1" | "f = 0" | "1 \<le> f" by linarith
  then show ?thesis
  proof cases
    case 1
    then have "(of_int f :: rat) \<le> - 1" by (metis of_int_le_iff of_int_minus of_int_1)
    with d have "y \<le> 1 / 2" unfolding y by linarith
    moreover have "round_half_even y \<le> 0" using 1 unfolding r by auto
    ultimately show ?thesis by simp
  next
    case 2
    have "y \<le> 1 / 2 \<longleftrightarrow> d \<le> 1 / 2" using 2 by (simp add: y)
    moreover have "round_half_even y \<le> 0 \<longleftrightarrow> d \<le> 1 / 2"
      using 2 d unfolding r by auto
    ultimately show ?thesis by simp
  next
    case 3
    then have "(1 :: rat) \<le> of_int f" by (metis of_int_le_iff of_int_1)
    with d have "\<not> y \<le> 1 / 2" unfolding y by linarith
    moreover have "\<not> round_half_even y \<le> 0" using 3 unfolding r by auto
    ultimately show ?thesis by simp
  qed
qed

lemma py_round2_nonpos: "py_round2 x \<le> 0 \<longleftrightarrow> x \<le> 1 / 200"
proof -
  have "py_round2 x \<le> 0 \<longleftrightarrow> round_half_even (x * 100) \<le> 0"
    by (simp add: py_round2_def divide_le_0_iff)
  also have "\<dots> \<longleftrightarrow> x * 100 \<le> 1 / 2" by (rule round_half_even_nonpos)
  also have "\<dots> \<longleftrightarrow> x \<le> 1 / 200" by auto
  finally show ?thesis .
qed


section \<open>Sanitising rows and results\<close>

text \<open>
  Sanitising is idempotent, so the last \<^verbatim>\<open>_sanitize_for_json\<close> leaves the result of the
  loops unchanged.
\<close>

lemma sanitize_idem: "sanitize_for_json (sanitize_for_json v) = sanitize_for_json v"
  by (induction v rule: sanitize_for_json.induct)
     (auto split: option.splits simp: filter_map o_def case_prod_unfold filter_id_conv)

lemma clean_sanitize_row: "clean_row (sanitize_row r)"
  by (simp add: clean_row_def sanitize_row_def list_all_iff sanitize_idem)

lemma or_empty_id [simp]: "or_empty xs = xs"
  by (simp add: or_empty_def)

lemma sanitize_entry_clean: "clean_row r \<Longrightarrow> sanitize_entry (invoice_entry_of r) = invoice_entry_of r"
  by (simp add: clean_row_def sanitize_entry_def invoice_entry_of_def list_all_iff map_idI)

lemma sanitize_statement_of:
  "list_all clean_row rs \<Longrightarrow> sanitize_statement (statement_of pid rs) = statement_of pid rs"
  by (simp add: sanitize_statement_def statement_of_def list_all_iff sanitize_entry_clean)

lemma list_all_rows_of: "list_all P rows \<Longrightarrow> list_all P (rows_of pid rows)"
  by (simp add: rows_of_def list_all_iff)

lemma sanitize_grouped:
  "list_all clean_row rows \<Longrightarrow> p \<in> set (map snd (grouped rows)) \<Longrightarrow> sanitize_statement p = p"
  by (auto simp: grouped_def sanitize_statement_of list_all_rows_of)

lemma sanitize_build_result:
  assumes "list_all clean_row rows"
  shows "sanitize_statements (build_result month year (classify (map snd (grouped rows))))
     = build_result month year (classify (map snd (grouped rows)))"
proof -
  have "map sanitize_statement (filter P (map snd (grouped rows))) = filter P (map snd (grouped rows))" for P
    by (rule map_idI) (use assms sanitize_grouped in auto)
  then show ?thesis
    by (simp add: sanitize_statements_def build_result_def classify_filter sanitize_bucket_def)
qed

text \<open>
  On the dicts of rows and results, \<open>sanitize_for_json\<close> does what \<open>sanitize_row\<close> and
  \<open>sanitize_statements\<close> do on the records.
\<close>

lemma sanitize_num_val [simp]: "sanitize_for_json (num_val v) = num_val v"
  by (cases v) (simp_all add: num_val_def)

lemma sanitize_row_doc: "sanitize_for_json (row_doc r) = json_row_doc (sanitize_row r)"
  by (simp add: row_doc_def json_row_doc_def sanitize_row_def o_def)

lemma sanitize_entry_doc: "sanitize_for_json (entry_doc e) = entry_doc (sanitize_entry e)"
  by (simp add: entry_doc_def sanitize_entry_def)

lemma sanitize_statement_doc:
  "sanitize_for_json (statement_doc p) = statement_doc (sanitize_statement p)"
  by (simp add: statement_doc_def sanitize_statement_def sanitize_entry_doc o_def)

lemma sanitize_bucket_doc: "sanitize_for_json (bucket_doc b) = bucket_doc (sanitize_bucket b)"
  by (simp add: bucket_doc_def sanitize_bucket_def sanitize_statement_doc o_def totals_doc_def)

lemma sanitize_statements_doc:
  "sanitize_for_json (statements_doc res) = statements_doc (sanitize_statements res)"
  by (simp add: statements_doc_def sanitize_statements_def sanitize_bucket_doc)

section \<open>The result of \<^verbatim>\<open>get_monthly_statements\<close>\<close>

lemma get_monthly_statements_eq:
  assumes "month_range month year = Inr (s, e)"
  shows "get_monthly_statements db month year =
     Inr (build_result month year (classify (map snd (grouped (statement_rows db s e)))))"
proof -
  have "list_all clean_row (statement_rows db s e)"
    by (simp add: statement_rows_def list_all_iff clean_sanitize_row)
  then show ?thesis
    using assms
    by (simp add: get_monthly_statements_def Let_def group_invoices_grouped
        sanitize_build_result statement_rows_def)
qed

lemma get_monthly_statements_Inl:
  "month_range month year = Inl x \<Longrightarrow> get_monthly_statements db month year = Inl x"
  by (simp add: get_monthly_statements_def)

lemma month_range_valid:
  assumes "1 \<le> month" "month \<le> 12" "1 \<le> year" "year \<le> 9999" "\<not> (month = 12 \<and> year = 9999)"
  shows "month_range month year =
     Inr (\<lparr>dt_year = nat year, dt_month = nat month, dt_day = 1, dt_hour = 0, dt_minute = 0,
            dt_second = 0, dt_microsecond = 0\<rparr>,
          if month = 12
          then \<lparr>dt_year = nat (year + 1), dt_month = 1, dt_day = 1, dt_hour = 0, dt_minute = 0,
            dt_second = 0, dt_microsecond = 0\<rparr>
          else \<lparr>dt_year = nat year, dt_month = nat (month + 1), dt_day = 1, dt_hour = 0, dt_minute = 0,
            dt_second = 0, dt_microsecond = 0\<rparr>)"
  using assms by (auto simp: month_range_def datetime_ymd_def c_int_def days_in_month_def)

lemma c_int_fits: "fits_c_int v \<Longrightarrow> c_int v = Inr v"
  by (simp add: fits_c_int_def c_int_def)

lemma c_int_overflow: "\<not> fits_c_int v \<Longrightarrow> \<exists>m. c_int v = Inl (OverflowError m)"
  by (auto simp: fits_c_int_def c_int_def)

lemma month_range_invalid:
  assumes "\<not> (1 \<le> month \<and> month \<le> 12 \<and> 1 \<le> year \<and> year \<le> 9999 \<and> \<not> (month = 12 \<and> year = 9999))"
    and "fits_c_int month" "fits_c_int year"
  shows "\<exists>m. month_range month year = Inl (ValueError m)"
proof -
  have one: "c_int 1 = Inr 1"
    by (simp add: c_int_def)
  have next_year: "c_int (year + 1) = Inr (year + 1)" if "year \<le> 9999"
    using that assms(3) by (simp add: c_int_def fits_c_int_def)
  have next_month: "c_int (month + 1) = Inr (month + 1)" if "month \<le> 12"
    using that assms(2) by (simp add: c_int_def fits_c_int_def)
  show ?thesis
    using assms(1) one next_year next_month
    by (auto simp: month_range_def datetime_ymd_def c_int_fits [OF assms(2)] c_int_fits [OF assms(3)]
        days_in_month_def)
qed

lemma month_range_overflow:
  assumes "\<not> (fits_c_int month \<and> fits_c_int year)"
  shows "\<exists>m. month_range month year = Inl (OverflowError m)"
proof (cases "fits_c_int year")
  case False
  from c_int_overflow [OF this] show ?thesis
    by (auto simp: month_range_def datetime_ymd_def)
next
  case True
  with assms have "\<not> fits_c_int month" by simp
  from c_int_overflow [OF this] show ?thesis
    by (auto simp: month_range_def datetime_ymd_def c_int_fits [OF True])
qed

lemma month_range_cases:
  "(\<exists>s e. month_range month year = Inr (s, e)) \<or> (\<exists>x. month_range month year = Inl x)"
  by (cases "month_range month year") auto

lemma sanitize_statements_result:
  "get_monthly_statements db month year = Inr res \<Longrightarrow> sanitize_statements res = res"
proof -
  assume a: "get_monthly_statements db month year = Inr res"
  then obtain s e where r: "month_range month year = Inr (s, e)"
    using month_range_cases [of month year] by (auto simp: get_monthly_statements_Inl)
  have "list_all clean_row (statement_rows db s e)"
    by (simp add: statement_rows_def list_all_iff clean_sanitize_row)
  from sanitize_build_result [OF this, of month year] a show ?thesis
    unfolding get_monthly_statements_eq [OF r] by auto
qed

lemma monthly_result:
  assumes "get_monthly_statements db month year = Inr res" "month_range month year = Inr (s, e)"
  shows "b_patients (sm_paid (st_summary res)) = filter is_paid (map snd (grouped (statement_rows db s e)))"
    and "b_patients (sm_unpaid (st_summary res)) =
           filter (\<lambda>p. \<not> is_paid p) (map snd (grouped (statement_rows db s e)))"
    and "b_totals (sm_paid (st_summary res)) = totals_of (b_patients (sm_paid (st_summary res)))"
    and "b_totals (sm_unpaid (st_summary res)) = totals_of (b_patients (sm_unpaid (st_summary res)))"
    and "st_month res = str_int month @ ''/'' @ str_int year"
  using assms get_monthly_statements_eq [OF assms(2), of db]
  by (auto simp: build_result_def classify_filter)

lemma set_result_patients:
  assumes "get_monthly_statements db month year = Inr res" "month_range month year = Inr (s, e)"
  shows "set (result_patients res) = set (map snd (grouped (statement_rows db s e)))"
  by (auto simp: result_patients_def monthly_result [OF assms])

section \<open>The pipelines\<close>

lemma set_unwind_patient:
  "set (unwind_patient db invs) =
     {(iv, p). iv \<in> set invs \<and> p \<in> set (Patient db) \<and> pat_patient_id p = inv_patient_id iv}"
  by (auto simp: unwind_patient_def lookup_patient_def)

lemma unwind_patient_Cons:
  "unwind_patient db (iv # ys) = map (\<lambda>p. (iv, p)) (lookup_patient db iv) @ unwind_patient db ys"
  by (simp add: unwind_patient_def)

lemma lookup_patient_orphan:
  "\<forall>p \<in> set (Patient db). pat_patient_id p \<noteq> inv_patient_id iv \<Longrightarrow> lookup_patient db iv = []"
  by (auto simp: lookup_patient_def filter_empty_conv)

lemma unwind_patient_Invoice_update [simp]:
  "unwind_patient (db\<lparr>Invoice := a\<rparr>) invs = unwind_patient db invs"
  by (simp add: unwind_patient_def lookup_patient_def)

lemma project_balance_Invoice_update [simp]:
  "project_balance (db\<lparr>Invoice := a\<rparr>) = project_balance db"
  by (simp add: project_balance_def lookup_payments_def fun_eq_iff)

lemma project_row_Invoice_update [simp]:
  "project_row (db\<lparr>Invoice := a\<rparr>) = project_row db"
  by (simp add: project_row_def lookup_payments_until_def lookup_lines_def fun_eq_iff)

lemma unwind_patient_removeAll:
  assumes "inv_patient_id iv \<notin> pat_patient_id ` set (Patient db)"
  shows "unwind_patient db (filter P (removeAll iv invs)) = unwind_patient db (filter P invs)"
proof -
  have "lookup_patient db iv = []"
    using assms by (force simp: lookup_patient_def filter_empty_conv)
  then show ?thesis
    by (induction invs) (auto simp: unwind_patient_Cons)
qed

lemma outstanding_removeAll:
  assumes "inv_patient_id iv \<notin> pat_patient_id ` set (Patient db)"
  shows "get_outstanding_balances (db\<lparr>Invoice := removeAll iv (Invoice db)\<rparr>) =
         get_outstanding_balances db"
  by (simp add: get_outstanding_balances_def outstanding_projected_def
      unwind_patient_removeAll [OF assms])

lemma monthly_removeAll:
  assumes "inv_patient_id iv \<notin> pat_patient_id ` set (Patient db)"
  shows "get_monthly_statements (db\<lparr>Invoice := removeAll iv (Invoice db)\<rparr>) month year =
         get_monthly_statements db month year"
  by (simp add: get_monthly_statements_def monthly_pipeline_def unwind_patient_removeAll [OF assms]
      split: sum.split)

lemma ob_balance_due_project [simp]:
  "ob_balance_due (project_balance db (iv, p)) =
     mongo_subtract (patient_portion iv) (sum_amounts (lookup_payments db iv))"
  by (simp add: project_balance_def Let_def)

lemma set_outstanding:
  "set (get_outstanding_balances db) =
     {r. \<exists>iv \<in> set (Invoice db). \<exists>p \<in> set (Patient db).
          status iv \<noteq> ''paid'' \<and> pat_patient_id p = inv_patient_id iv \<and>
          gt_zero (mongo_subtract (patient_portion iv) (sum_amounts (lookup_payments db iv))) \<and>
          r = project_balance db (iv, p)}"
  by (force simp: get_outstanding_balances_def outstanding_projected_def set_unwind_patient)



lemma set_outstanding_projected:
  "set (outstanding_projected db) =
     {r. \<exists>iv \<in> set (Invoice db). \<exists>p \<in> set (Patient db).
          status iv \<noteq> ''paid'' \<and> pat_patient_id p = inv_patient_id iv \<and>
          r = project_balance db (iv, p)}"
  by (force simp: outstanding_projected_def set_unwind_patient)

lemma set_monthly_pipeline:
  "set (monthly_pipeline db s e) =
     {r. \<exists>iv \<in> set (Invoice db). \<exists>p \<in> set (Patient db).
          month_match s e iv \<and> pat_patient_id p = inv_patient_id iv \<and> r = project_row db e (iv, p)}"
  by (auto simp: monthly_pipeline_def set_unwind_patient)

lemma row_of_pair:
  "row_invoice_id (project_row db e (iv, p)) = invoice_id iv"
  "row_patient_id (project_row db e (iv, p)) = inv_patient_id iv"
  "row_patient_portion (project_row db e (iv, p)) = patient_portion iv"
  "row_payments (project_row db e (iv, p)) = lookup_payments_until db e iv"
  "row_total_paid (project_row db e (iv, p)) = sum_amounts (lookup_payments_until db e iv)"
  "row_balance_due (project_row db e (iv, p)) =
     mongo_subtract (patient_portion iv) (sum_amounts (lookup_payments_until db e iv))"
  by (simp_all add: project_row_def Let_def)

lemma balance_row_of_pair:
  "ob_invoice_id (project_balance db (iv, p)) = invoice_id iv"
  "ob_patient_id (project_balance db (iv, p)) = inv_patient_id iv"
  "ob_patient_portion (project_balance db (iv, p)) = patient_portion iv"
  "ob_total_paid (project_balance db (iv, p)) = sum_amounts (lookup_payments db iv)"
  "ob_patient_name (project_balance db (iv, p)) = concat_name p"
  by (simp_all add: project_balance_def Let_def)

lemma statement_rows_pairs:
  "statement_rows db s e = map (\<lambda>ip. sanitize_row (project_row db e ip)) (billed_pairs db s e)"
  by (simp add: statement_rows_def monthly_pipeline_def billed_pairs_def)

lemma jr_of_pair:
  "jr_patient_id (sanitize_row (project_row db e ip)) = inv_patient_id (fst ip)"
  "jr_invoice_id (sanitize_row (project_row db e ip)) = invoice_id (fst ip)"
  "jr_patient_portion (sanitize_row (project_row db e ip)) = patient_portion (fst ip)"
  "jr_total_paid (sanitize_row (project_row db e ip)) = sum_amounts (lookup_payments_until db e (fst ip))"
  "jr_balance_due (sanitize_row (project_row db e ip)) =
     mongo_subtract (patient_portion (fst ip)) (sum_amounts (lookup_payments_until db e (fst ip)))"
  "jr_patient_name (sanitize_row (project_row db e ip)) = concat_name (snd ip)"
  by (simp_all add: sanitize_row_def project_row_def Let_def)






lemma set_billed_pairs:
  "set (billed_pairs db s e) =
     {(iv, p). iv \<in> set (Invoice db) \<and> month_match s e iv \<and> p \<in> set (Patient db) \<and>
        pat_patient_id p = inv_patient_id iv}"
  by (auto simp: billed_pairs_def set_unwind_patient)

lemma statement_row_ids:
  "jr_patient_id ` set (statement_rows db s e) =
     {pid. \<exists>iv \<in> set (Invoice db). \<exists>p \<in> set (Patient db).
        month_match s e iv \<and> pat_patient_id p = inv_patient_id iv \<and> inv_patient_id iv = pid}"
  by (force simp: statement_rows_pairs image_image jr_of_pair set_billed_pairs)




section \<open>Statements and the database\<close>



lemma result_patient_cases:
  assumes "get_monthly_statements db month year = Inr res" "month_range month year = Inr (s, e)"
    and "p \<in> set (result_patients res)"
  shows "p = statement_of (ps_patient_id p) (rows_of (ps_patient_id p) (statement_rows db s e))"
    and "\<exists>iv \<in> set (Invoice db). \<exists>pat \<in> set (Patient db). month_match s e iv \<and>
           pat_patient_id pat = inv_patient_id iv \<and> inv_patient_id iv = ps_patient_id p"
proof -
  from assms have m: "p \<in> set (map snd (grouped (statement_rows db s e)))"
    by (simp add: set_result_patients [OF assms(1,2)])
  from grouped_member(1) [OF m]
  show "p = statement_of (ps_patient_id p) (rows_of (ps_patient_id p) (statement_rows db s e))" .
  from grouped_member(2) [OF m]
  show "\<exists>iv \<in> set (Invoice db). \<exists>pat \<in> set (Patient db). month_match s e iv \<and>
           pat_patient_id pat = inv_patient_id iv \<and> inv_patient_id iv = ps_patient_id p"
    by (simp add: statement_row_ids)
qed






section \<open>The sequence of steps and the loops\<close>

lemma month_range_first_day:
  "valid_month month year \<Longrightarrow>
     month_range month year = Inr (first_day year month, next_first_day year month)"
  unfolding valid_month_def
  by (subst month_range_valid) (auto simp: first_day_def next_first_day_def midnight_def)

lemma statement_rows_spec:
  "statement_rows db s e =
     map spec_invoice_totals (spec_lookups db e [iv \<leftarrow> Invoice db. dt_le s (invoice_date iv) \<and> dt_lt (invoice_date iv) e])"
  by (simp add: statement_rows_def monthly_pipeline_def unwind_patient_def lookup_patient_def
      spec_lookups_def spec_invoice_totals_def sanitize_row_def project_row_def Let_def
      lookup_payments_until_def lookup_lines_def sum_amounts_def mongo_subtract_def concat_name_def
      map_concat o_def month_match_def [abs_def])

lemma spec_group_grouped: "spec_group rows = map snd (grouped rows)"
  by (simp add: spec_group_def grouped_def rows_of_def o_def)

section \<open>Lookups\<close>

lemma find_Some_first:
  "find P xs = Some x \<Longrightarrow> x \<in> set xs \<and> P x"
  by (induction xs) (auto split: if_splits)

section \<open>The examples evaluated\<close>

lemmas dt_simps = dt_le_def dt_lt_def dt_key_def midnight_def

lemmas pipeline_defs = monthly_pipeline_def month_match_def unwind_patient_def lookup_patient_def
  project_row_def lookup_payments_until_def lookup_lines_def sum_amounts_def amount_or_zero_def
  mongo_subtract_def concat_name_def

lemmas outstanding_defs = get_outstanding_balances_def outstanding_projected_def unwind_patient_def lookup_patient_def
  project_balance_def lookup_payments_def sum_amounts_def amount_or_zero_def mongo_subtract_def
  concat_name_def gt_zero_def

lemma digits_numeral [simp]: "digits (numeral n) = (if (numeral n :: nat) < 10 then [digit_char (numeral n)] else digits (numeral n div 10) @ [digit_char (numeral n mod 10)])"
  by (rule digits.simps)

lemma digits_0 [simp]: "digits 0 = ''0''"
  by (simp add: digits.simps digit_char_def)

lemma digits_Suc_0 [simp]: "digits (Suc 0) = ''1''"
  by (simp add: digits.simps digit_char_def)

lemma example_month_range: "month_range 1 2024 = Inr (midnight 2024 1 1, midnight 2024 2 1)"
  by (simp add: month_range_def datetime_ymd_def c_int_def days_in_month_def midnight_def)

lemma example_monthly: "get_monthly_statements example_db 1 2024 = Inr example_statements"
  by (simp add: get_monthly_statements_def example_month_range pipeline_defs example_db_def dt_simps Let_def
    sanitize_row_def group_invoices_def group_step_def new_statement_def add_invoice_def invoice_entry_of_def
    or_zero_def or_empty_def classify_def classify_step_def py_round2_nonpos
    zero_totals_def add_totals_def build_result_def sanitize_statements_def sanitize_bucket_def
    sanitize_statement_def sanitize_entry_def example_statements_def example_patient_1_def
    example_patient_2_def str_int_def digit_char_def
    line_doc_def payment_doc_def num_val_def datetime_isoformat_def zero_pad_def)

lemma example_month_13:
  "get_monthly_statements example_db 13 2024 = Inl (ValueError ''month must be in 1..12'')"
  by (simp add: get_monthly_statements_def month_range_def datetime_ymd_def c_int_def)

lemma example_pipeline_row:
  "example_row \<in> set (monthly_pipeline example_db (midnight 2024 1 1) (midnight 2024 2 1))"
  by (simp add: pipeline_defs example_db_def dt_simps Let_def example_row_def)



lemma example_settled_row_member:
  "example_settled_row \<in> set (outstanding_projected example_db)"
  "example_settled_row \<notin> set (get_outstanding_balances example_db)"
  by (simp_all add: outstanding_defs example_db_def Let_def example_settled_row_def)

lemma example_orphan:
  "inv_patient_id orphan_invoice \<notin> pat_patient_id ` set (Patient example_db)"
  "orphan_invoice \<in> set (Invoice example_db)"
  by (simp_all add: example_db_def orphan_invoice_def)





lemma example_spec: "next_first_day 2023 12 = midnight 2024 1 1"
  by (simp add: next_first_day_def first_day_def)


section \<open>Sanitising\<close>







section \<open>Balances and totals\<close>

text \<open>
  C2. Every invoice that a pipeline processes gets one row per matching patient document, and
  in every such row \<open>balance_due\<close> is \<open>patient_portion\<close> minus the sum of the amounts of
  the payments looked up for the invoice (null when \<open>patient_portion\<close> is null): for the
  monthly statements the payments of the invoice dated on or before \<open>end_date\<close>, for the
  outstanding balances all payments of the invoice. For the outstanding balances this holds
  of every row of the \<^verbatim>\<open>$project\<close> stage, before the final \<^verbatim>\<open>$match\<close> on
  \<open>balance_due > 0\<close> keeps some of them; the looked-up payments are written out as the
  payments of the Payment collection that carry the invoice's id.
\<close>

theorem balance_due_is_portion_minus_payments:
  "map (\<lambda>r. (row_invoice_id r, row_patient_portion r, row_payments r, row_total_paid r,
              row_balance_due r))
     (monthly_pipeline db start_date end_date) =
   map (\<lambda>(iv, p).
          (invoice_id iv, patient_portion iv,
           [pay \<leftarrow> Payment db. pay_invoice_id pay = invoice_id iv \<and>
              dt_le (payment_date pay) end_date],
           sum_list (map amount_or_zero
             [pay \<leftarrow> Payment db. pay_invoice_id pay = invoice_id iv \<and>
                dt_le (payment_date pay) end_date]),
           (case patient_portion iv of None \<Rightarrow> None
            | Some x \<Rightarrow> Some (x - sum_list (map amount_or_zero
                [pay \<leftarrow> Payment db. pay_invoice_id pay = invoice_id iv \<and>
                   dt_le (payment_date pay) end_date])))))
     (unwind_patient db (filter (month_match start_date end_date) (Invoice db))) \<and>
   map (\<lambda>r. (ob_invoice_id r, ob_patient_portion r, ob_total_paid r, ob_balance_due r))
     (outstanding_projected db) =
   map (\<lambda>(iv, p).
          (invoice_id iv, patient_portion iv,
           sum_list (map amount_or_zero [pay \<leftarrow> Payment db. pay_invoice_id pay = invoice_id iv]),
           (case patient_portion iv of None \<Rightarrow> None
            | Some x \<Rightarrow> Some (x - sum_list (map amount_or_zero
                [pay \<leftarrow> Payment db. pay_invoice_id pay = invoice_id iv])))))
     (unwind_patient db (filter (\<lambda>iv. status iv \<noteq> ''paid'') (Invoice db))) \<and>
   get_outstanding_balances db =
     filter (\<lambda>r. gt_zero (ob_balance_due r)) (outstanding_projected db) \<and>
   (\<forall>r \<in> set (monthly_pipeline db start_date end_date).
      row_total_paid r = sum_list (map amount_or_zero (row_payments r)) \<and>
      row_balance_due r =
        (case row_patient_portion r of None \<Rightarrow> None
         | Some x \<Rightarrow> Some (x - sum_list (map amount_or_zero (row_payments r))))) \<and>
   (\<forall>r \<in> set (outstanding_projected db).
      \<exists>iv \<in> set (Invoice db).
        ob_invoice_id r = invoice_id iv \<and> ob_patient_portion r = patient_portion iv \<and>
        ob_total_paid r =
          sum_list (map amount_or_zero [pay \<leftarrow> Payment db. pay_invoice_id pay = invoice_id iv]) \<and>
        ob_balance_due r =
          (case ob_patient_portion r of None \<Rightarrow> None
           | Some x \<Rightarrow> Some (x - ob_total_paid r)))"
proof (intro conjI ballI)
  show "map (\<lambda>r. (row_invoice_id r, row_patient_portion r, row_payments r, row_total_paid r,
              row_balance_due r))
     (monthly_pipeline db start_date end_date) =
   map (\<lambda>(iv, p).
          (invoice_id iv, patient_portion iv,
           [pay \<leftarrow> Payment db. pay_invoice_id pay = invoice_id iv \<and>
              dt_le (payment_date pay) end_date],
           sum_list (map amount_or_zero
             [pay \<leftarrow> Payment db. pay_invoice_id pay = invoice_id iv \<and>
                dt_le (payment_date pay) end_date]),
           (case patient_portion iv of None \<Rightarrow> None
            | Some x \<Rightarrow> Some (x - sum_list (map amount_or_zero
                [pay \<leftarrow> Payment db. pay_invoice_id pay = invoice_id iv \<and>
                   dt_le (payment_date pay) end_date])))))
     (unwind_patient db (filter (month_match start_date end_date) (Invoice db)))"
    by (simp add: monthly_pipeline_def o_def case_prod_unfold project_row_def Let_def
        lookup_payments_until_def sum_amounts_def mongo_subtract_def)
  show "map (\<lambda>r. (ob_invoice_id r, ob_patient_portion r, ob_total_paid r, ob_balance_due r))
     (outstanding_projected db) =
   map (\<lambda>(iv, p).
          (invoice_id iv, patient_portion iv,
           sum_list (map amount_or_zero [pay \<leftarrow> Payment db. pay_invoice_id pay = invoice_id iv]),
           (case patient_portion iv of None \<Rightarrow> None
            | Some x \<Rightarrow> Some (x - sum_list (map amount_or_zero
                [pay \<leftarrow> Payment db. pay_invoice_id pay = invoice_id iv])))))
     (unwind_patient db (filter (\<lambda>iv. status iv \<noteq> ''paid'') (Invoice db)))"
    by (simp add: outstanding_projected_def o_def case_prod_unfold project_balance_def Let_def
        lookup_payments_def sum_amounts_def mongo_subtract_def)
  show "get_outstanding_balances db =
     filter (\<lambda>r. gt_zero (ob_balance_due r)) (outstanding_projected db)"
    by (simp add: get_outstanding_balances_def)
next
  fix r assume "r \<in> set (monthly_pipeline db start_date end_date)"
  then obtain iv p where "r = project_row db end_date (iv, p)"
    by (auto simp: set_monthly_pipeline)
  then show "row_total_paid r = sum_list (map amount_or_zero (row_payments r))"
    and "row_balance_due r =
        (case row_patient_portion r of None \<Rightarrow> None
         | Some x \<Rightarrow> Some (x - sum_list (map amount_or_zero (row_payments r))))"
    by (simp_all add: row_of_pair sum_amounts_def mongo_subtract_def split: option.split)
next
  fix r assume "r \<in> set (outstanding_projected db)"
  then obtain iv p where "iv \<in> set (Invoice db)" "r = project_balance db (iv, p)"
    by (auto simp: set_outstanding_projected)
  then show "\<exists>iv \<in> set (Invoice db).
        ob_invoice_id r = invoice_id iv \<and> ob_patient_portion r = patient_portion iv \<and>
        ob_total_paid r =
          sum_list (map amount_or_zero [pay \<leftarrow> Payment db. pay_invoice_id pay = invoice_id iv]) \<and>
        ob_balance_due r =
          (case ob_patient_portion r of None \<Rightarrow> None
           | Some x \<Rightarrow> Some (x - ob_total_paid r))"
    by (intro bexI [of _ iv])
      (simp_all add: balance_row_of_pair sum_amounts_def mongo_subtract_def lookup_payments_def
        split: option.split)
qed

theorem balance_due_is_portion_minus_payments_witness:
  "example_row \<in> set (monthly_pipeline example_db (midnight 2024 1 1) (midnight 2024 2 1)) \<and>
   row_patient_portion example_row = Some 50 \<and>
   sum_list (map amount_or_zero (row_payments example_row)) = 20 \<and>
   row_balance_due example_row = Some (50 - 20) \<and>
   example_settled_row \<in> set (outstanding_projected example_db) \<and>
   example_settled_row \<notin> set (get_outstanding_balances example_db) \<and>
   ob_patient_portion example_settled_row = Some 50 \<and>
   ob_total_paid example_settled_row = 50 \<and>
   ob_balance_due example_settled_row = Some (50 - 50)"
proof -
  note t = balance_due_is_portion_minus_payments
    [of example_db "midnight 2024 1 1" "midnight 2024 2 1"]
  have p: "row_patient_portion example_row = Some 50"
    and s: "sum_list (map amount_or_zero (row_payments example_row)) = 20"
    by (simp_all add: example_row_def amount_or_zero_def)
  from t example_pipeline_row
  have "row_balance_due example_row =
          (case row_patient_portion example_row of None \<Rightarrow> None
           | Some x \<Rightarrow> Some (x - sum_list (map amount_or_zero (row_payments example_row))))"
    by blast
  with p s have a: "row_balance_due example_row = Some (50 - 20)"
    by simp
  have q: "ob_patient_portion example_settled_row = Some 50"
    "ob_total_paid example_settled_row = 50"
    by (simp_all add: example_settled_row_def)
  from t example_settled_row_member(1)
  have "ob_balance_due example_settled_row =
          (case ob_patient_portion example_settled_row of None \<Rightarrow> None
           | Some x \<Rightarrow> Some (x - ob_total_paid example_settled_row))"
    by blast
  with q have b: "ob_balance_due example_settled_row = Some (50 - 50)"
    by simp
  from p s a q b example_pipeline_row example_settled_row_member show ?thesis
    by blast
qed







section \<open>Classification\<close>





section \<open>Outstanding balances and invoices without a patient\<close>




text \<open>
  C10. An invoice whose \<open>patient_id\<close> matches no document of the Patient collection is
  omitted from both results: deleting it from the Invoice collection changes neither the
  outstanding balances nor the monthly statements, no returned balance row carries its
  patient id, and no patient statement of either bucket is for its patient id.
\<close>

theorem orphan_invoices_are_omitted:
  assumes "inv_patient_id iv \<notin> pat_patient_id ` set (Patient db)"
  shows "get_outstanding_balances (db\<lparr>Invoice := removeAll iv (Invoice db)\<rparr>) =
           get_outstanding_balances db \<and>
         get_monthly_statements (db\<lparr>Invoice := removeAll iv (Invoice db)\<rparr>) month year =
           get_monthly_statements db month year \<and>
         (\<forall>r \<in> set (get_outstanding_balances db). ob_patient_id r \<noteq> inv_patient_id iv) \<and>
         (\<forall>res. get_monthly_statements db month year = Inr res \<longrightarrow>
            (\<forall>p \<in> set (b_patients (sm_paid (st_summary res)) @ b_patients (sm_unpaid (st_summary res))).
               ps_patient_id p \<noteq> inv_patient_id iv))"
proof (intro conjI ballI allI impI)
  show "get_outstanding_balances (db\<lparr>Invoice := removeAll iv (Invoice db)\<rparr>) =
      get_outstanding_balances db"
    by (rule outstanding_removeAll [OF assms])
  show "get_monthly_statements (db\<lparr>Invoice := removeAll iv (Invoice db)\<rparr>) month year =
      get_monthly_statements db month year"
    by (rule monthly_removeAll [OF assms])
next
  fix r assume "r \<in> set (get_outstanding_balances db)"
  then obtain iv' p where "p \<in> set (Patient db)" "pat_patient_id p = inv_patient_id iv'"
    "r = project_balance db (iv', p)"
    unfolding set_outstanding by blast
  moreover have "pat_patient_id q \<noteq> inv_patient_id iv" if "q \<in> set (Patient db)" for q
    using that assms by force
  ultimately show "ob_patient_id r \<noteq> inv_patient_id iv"
    by (metis balance_row_of_pair(2))
next
  fix res p
  assume res: "get_monthly_statements db month year = Inr res"
    and "p \<in> set (b_patients (sm_paid (st_summary res)) @ b_patients (sm_unpaid (st_summary res)))"
  then have p: "p \<in> set (result_patients res)"
    by (simp add: result_patients_def)
  from res obtain s e where "month_range month year = Inr (s, e)"
    using month_range_cases [of month year] by (auto simp: get_monthly_statements_Inl)
  from result_patient_cases(2) [OF res this p]
  show "ps_patient_id p \<noteq> inv_patient_id iv"
    using assms by force
qed

theorem orphan_invoices_are_omitted_witness:
  "inv_patient_id orphan_invoice \<notin> pat_patient_id ` set (Patient example_db) \<and>
   orphan_invoice \<in> set (Invoice example_db) \<and>
   get_outstanding_balances (example_db\<lparr>Invoice := removeAll orphan_invoice (Invoice example_db)\<rparr>) =
     get_outstanding_balances example_db \<and>
   get_monthly_statements (example_db\<lparr>Invoice := removeAll orphan_invoice (Invoice example_db)\<rparr>) 1 2024 =
     Inr example_statements \<and>
   3 \<notin> ps_patient_id ` set (result_patients example_statements)"
proof -
  note t = orphan_invoices_are_omitted [OF example_orphan(1), of 1 2024]
  from t have "get_monthly_statements
      (example_db\<lparr>Invoice := removeAll orphan_invoice (Invoice example_db)\<rparr>) 1 2024 =
      Inr example_statements"
    by (simp add: example_monthly)
  moreover from t have "get_outstanding_balances
      (example_db\<lparr>Invoice := removeAll orphan_invoice (Invoice example_db)\<rparr>) =
      get_outstanding_balances example_db"
    by blast
  moreover have "3 \<notin> ps_patient_id ` set (result_patients example_statements)"
    using t example_monthly by (auto simp: result_patients_def orphan_invoice_def)
  ultimately show ?thesis
    using example_orphan by simp
qed

section \<open>The sequence of steps\<close>

text \<open>
  C4. For a month from 1 to 12 and a year from 1 to 9999 (December 9999 apart, whose next
  month has no \<^verbatim>\<open>datetime\<close>), \<^verbatim>\<open>get_monthly_statements\<close> returns what the sequence of the
  specification computes, in its order: match on the half-open range of the month, look up
  patient, payments up to the cutoff and lines, compute the totals of each invoice, group by
  patient, bucket into paid and unpaid, sum the totals of each bucket. For any other month
  or year the \<^verbatim>\<open>datetime\<close> constructor raises: \<^verbatim>\<open>ValueError\<close> when both numbers fit a C
  \<^verbatim>\<open>int\<close>, \<^verbatim>\<open>OverflowError\<close> otherwise.
\<close>

theorem monthly_statements_sequence:
  "(valid_month month year \<longrightarrow>
      get_monthly_statements db month year = Inr (monthly_statements_spec db month year)) \<and>
   (\<not> valid_month month year \<and> fits_c_int month \<and> fits_c_int year \<longrightarrow>
      (\<exists>m. get_monthly_statements db month year = Inl (ValueError m))) \<and>
   (\<not> (fits_c_int month \<and> fits_c_int year) \<longrightarrow>
      (\<exists>m. get_monthly_statements db month year = Inl (OverflowError m)))"
proof (intro conjI impI)
  assume v: "valid_month month year"
  show "get_monthly_statements db month year = Inr (monthly_statements_spec db month year)"
    unfolding get_monthly_statements_eq [OF month_range_first_day [OF v]]
    by (simp add: monthly_statements_spec_def Let_def build_result_def classify_filter
        spec_bucket_def spec_sum_def totals_of_def spec_group_grouped statement_rows_spec
        spec_match_def is_paid_def [abs_def])
next
  assume "\<not> valid_month month year \<and> fits_c_int month \<and> fits_c_int year"
  then obtain m where "month_range month year = Inl (ValueError m)"
    using month_range_invalid [of month year] unfolding valid_month_def by blast
  then show "\<exists>m. get_monthly_statements db month year = Inl (ValueError m)"
    by (auto simp: get_monthly_statements_Inl)
next
  assume "\<not> (fits_c_int month \<and> fits_c_int year)"
  then obtain m where "month_range month year = Inl (OverflowError m)"
    using month_range_overflow [of month year] by blast
  then show "\<exists>m. get_monthly_statements db month year = Inl (OverflowError m)"
    by (auto simp: get_monthly_statements_Inl)
qed

theorem monthly_statements_sequence_witness:
  "valid_month 1 2024 \<and>
   monthly_statements_spec example_db 1 2024 = example_statements \<and>
   \<not> valid_month 12 9999 \<and> fits_c_int 12 \<and> fits_c_int 9999 \<and>
   get_monthly_statements example_db 12 9999 = Inl (ValueError ''year 10000 is out of range'') \<and>
   \<not> (fits_c_int 1 \<and> fits_c_int 2147483648) \<and>
   get_monthly_statements example_db 1 2147483648 =
     Inl (OverflowError ''signed integer is greater than maximum'') \<and>
   valid_month 12 2023 \<and>
   next_first_day 2023 12 = midnight 2024 1 1"
proof -
  have v: "valid_month 1 2024" "\<not> valid_month 12 9999" "valid_month 12 2023"
    by (simp_all add: valid_month_def)
  have f: "fits_c_int 12" "fits_c_int 9999" "\<not> (fits_c_int 1 \<and> fits_c_int 2147483648)"
    by (simp_all add: fits_c_int_def)
  from monthly_statements_sequence [of 1 2024 example_db] v(1) example_monthly
  have a: "monthly_statements_spec example_db 1 2024 = example_statements"
    by simp
  from monthly_statements_sequence [of 12 9999 example_db] v(2) f(1,2)
  obtain m where m: "get_monthly_statements example_db 12 9999 = Inl (ValueError m)"
    by blast
  have b: "get_monthly_statements example_db 12 9999 = Inl (ValueError ''year 10000 is out of range'')"
    by (simp add: get_monthly_statements_def month_range_def datetime_ymd_def c_int_def days_in_month_def
        str_int_def digit_char_def)
  from monthly_statements_sequence [of 1 2147483648 example_db] f(3)
  obtain m' where "get_monthly_statements example_db 1 2147483648 = Inl (OverflowError m')"
    by blast
  have c: "get_monthly_statements example_db 1 2147483648 =
      Inl (OverflowError ''signed integer is greater than maximum'')"
    by (simp add: get_monthly_statements_def month_range_def datetime_ymd_def c_int_def)
  from v f a b c example_spec show ?thesis by blast
qed

section \<open>Routes\<close>

text \<open>
  C6. \<^verbatim>\<open>GET /statements/monthly\<close>: when the month or the year parameter is missing or zero,
  the response is 400 with the body \<^verbatim>\<open>{"error": "Month and Year required"}\<close> and the report
  service is not called; when the report computation raises an exception, the response is
  500 with an error body; otherwise it is 200 with the sanitised report. In every case the
  route returns a response, no exception leaves it, and the database is unchanged.
\<close>

theorem statements_monthly_responses:
  "(falsy (arg_month args) \<or> falsy (arg_year args) \<longrightarrow>
      statements_monthly_route db args =
        (Inr \<lparr>status_code = 400, body = ErrorBody ''Month and Year required''\<rparr>, db, [])) \<and>
   (\<forall>month year e.
      arg_month args = Some month \<and> arg_year args = Some year \<and> month \<noteq> 0 \<and> year \<noteq> 0 \<and>
      get_monthly_statements db month year = Inl e \<longrightarrow>
      statements_monthly_route db args =
        (Inr \<lparr>status_code = 500, body = InternalErrorBody (exception_str e)\<rparr>, db,
         [MonthlyStatementsCall month year])) \<and>
   (\<forall>month year res.
      arg_month args = Some month \<and> arg_year args = Some year \<and> month \<noteq> 0 \<and> year \<noteq> 0 \<and>
      get_monthly_statements db month year = Inr res \<longrightarrow>
      statements_monthly_route db args =
        (Inr \<lparr>status_code = 200, body = StatementsBody res\<rparr>, db,
         [MonthlyStatementsCall month year])) \<and>
   (\<exists>r calls. statements_monthly_route db args = (Inr r, db, calls))"
proof (intro conjI allI impI)
  assume "falsy (arg_month args) \<or> falsy (arg_year args)"
  then show "statements_monthly_route db args =
      (Inr \<lparr>status_code = 400, body = ErrorBody ''Month and Year required''\<rparr>, db, [])"
    by (auto simp: statements_monthly_route_def monthly_try_body_def)
next
  fix month year e
  assume "arg_month args = Some month \<and> arg_year args = Some year \<and> month \<noteq> 0 \<and> year \<noteq> 0 \<and>
      get_monthly_statements db month year = Inl e"
  then show "statements_monthly_route db args =
      (Inr \<lparr>status_code = 500, body = InternalErrorBody (exception_str e)\<rparr>, db,
       [MonthlyStatementsCall month year])"
    by (simp add: statements_monthly_route_def monthly_try_body_def falsy_def)
next
  fix month year res
  assume a: "arg_month args = Some month \<and> arg_year args = Some year \<and> month \<noteq> 0 \<and> year \<noteq> 0 \<and>
      get_monthly_statements db month year = Inr res"
  then have "sanitize_statements res = res"
    by (auto dest: sanitize_statements_result)
  with a show "statements_monthly_route db args =
      (Inr \<lparr>status_code = 200, body = StatementsBody res\<rparr>, db,
       [MonthlyStatementsCall month year])"
    by (simp add: statements_monthly_route_def monthly_try_body_def falsy_def)
next
  show "\<exists>r calls. statements_monthly_route db args = (Inr r, db, calls)"
    by (auto simp: statements_monthly_route_def monthly_try_body_def Let_def
        split: sum.splits prod.splits)
qed

theorem statements_monthly_responses_witness:
  "falsy (arg_month \<lparr>arg_month = None, arg_year = Some 2024\<rparr>) \<and>
   statements_monthly_route example_db \<lparr>arg_month = None, arg_year = Some 2024\<rparr> =
     (Inr \<lparr>status_code = 400, body = ErrorBody ''Month and Year required''\<rparr>, example_db, []) \<and>
   get_monthly_statements example_db 13 2024 = Inl (ValueError ''month must be in 1..12'') \<and>
   statements_monthly_route example_db \<lparr>arg_month = Some 13, arg_year = Some 2024\<rparr> =
     (Inr \<lparr>status_code = 500, body = InternalErrorBody ''month must be in 1..12''\<rparr>, example_db,
      [MonthlyStatementsCall 13 2024]) \<and>
   get_monthly_statements example_db 1 2024 = Inr example_statements \<and>
   statements_monthly_route example_db \<lparr>arg_month = Some 1, arg_year = Some 2024\<rparr> =
     (Inr \<lparr>status_code = 200, body = StatementsBody example_statements\<rparr>, example_db,
      [MonthlyStatementsCall 1 2024])"
proof -
  have f: "falsy (arg_month \<lparr>arg_month = None, arg_year = Some 2024\<rparr>)"
    by (simp add: falsy_def)
  from statements_monthly_responses [of "\<lparr>arg_month = None, arg_year = Some 2024\<rparr>" example_db] f
  have a: "statements_monthly_route example_db \<lparr>arg_month = None, arg_year = Some 2024\<rparr> =
     (Inr \<lparr>status_code = 400, body = ErrorBody ''Month and Year required''\<rparr>, example_db, [])"
    by blast
  from statements_monthly_responses [of "\<lparr>arg_month = Some 13, arg_year = Some 2024\<rparr>" example_db]
    example_month_13
  have b: "statements_monthly_route example_db \<lparr>arg_month = Some 13, arg_year = Some 2024\<rparr> =
     (Inr \<lparr>status_code = 500, body = InternalErrorBody ''month must be in 1..12''\<rparr>, example_db,
      [MonthlyStatementsCall 13 2024])"
    by (simp add: exception_str_def)
  from statements_monthly_responses [of "\<lparr>arg_month = Some 1, arg_year = Some 2024\<rparr>" example_db]
    example_monthly
  have c: "statements_monthly_route example_db \<lparr>arg_month = Some 1, arg_year = Some 2024\<rparr> =
     (Inr \<lparr>status_code = 200, body = StatementsBody example_statements\<rparr>, example_db,
      [MonthlyStatementsCall 1 2024])"
    by simp
  from f a b c example_month_13 example_monthly show ?thesis by blast
qed

text \<open>
  C7. \<^verbatim>\<open>GET /patients/{patient_id}\<close>, in the Flask and the FastAPI application: the answer is
  404 with \<^verbatim>\<open>"Patient not found"\<close> exactly when no patient of the collection has the id;
  otherwise it is the record of a patient with that id, with status 200. The database is
  unchanged, and the answer depends on the patient collection only.
\<close>

theorem get_patient_by_id:
  "(fst (flask_get_patient db patient_id) = \<lparr>status_code = 404, body = ErrorBody ''Patient not found''\<rparr>
      \<longleftrightarrow> patient_id \<notin> pat_patient_id ` set (Patient db)) \<and>
   (fst (fastapi_get_patient db patient_id) = Inl (HTTPException 404 ''Patient not found'')
      \<longleftrightarrow> patient_id \<notin> pat_patient_id ` set (Patient db)) \<and>
   (patient_id \<in> pat_patient_id ` set (Patient db) \<longrightarrow>
      (\<exists>p \<in> set (Patient db). pat_patient_id p = patient_id \<and>
         fst (flask_get_patient db patient_id) = \<lparr>status_code = 200, body = PatientBody p\<rparr> \<and>
         fst (fastapi_get_patient db patient_id) = Inr p)) \<and>
   snd (flask_get_patient db patient_id) = db \<and>
   snd (fastapi_get_patient db patient_id) = db \<and>
   (\<forall>db'. Patient db' = Patient db \<longrightarrow>
      fst (flask_get_patient db' patient_id) = fst (flask_get_patient db patient_id) \<and>
      fst (fastapi_get_patient db' patient_id) = fst (fastapi_get_patient db patient_id))"
proof -
  have none: "PatientCRUD_get db patient_id = None \<longleftrightarrow> patient_id \<notin> pat_patient_id ` set (Patient db)"
    by (auto simp: PatientCRUD_get_def find_None_iff)
  have some: "p \<in> set (Patient db) \<and> pat_patient_id p = patient_id"
    if "PatientCRUD_get db patient_id = Some p" for p
    using that find_Some_first [of "\<lambda>p. pat_patient_id p = patient_id" "Patient db" p]
    by (simp add: PatientCRUD_get_def)
  have same: "PatientCRUD_get db' patient_id = PatientCRUD_get db patient_id"
    if "Patient db' = Patient db" for db'
    using that by (simp add: PatientCRUD_get_def)
  show ?thesis
  proof (cases "PatientCRUD_get db patient_id")
    case None
    with none same show ?thesis
      by (simp add: flask_get_patient_def fastapi_get_patient_def)
  next
    case (Some p)
    with none some [OF Some] same show ?thesis
      by (auto simp: flask_get_patient_def fastapi_get_patient_def)
  qed
qed

theorem get_patient_by_id_witness:
  "1 \<in> pat_patient_id ` set (Patient example_db) \<and>
   fst (flask_get_patient example_db 1) =
     \<lparr>status_code = 200, body = PatientBody
        \<lparr>pat_oid = ''b1'', pat_patient_id = 1, first_name = ''Ann'', last_name = ''Lee''\<rparr>\<rparr> \<and>
   fst (fastapi_get_patient example_db 1) =
     Inr \<lparr>pat_oid = ''b1'', pat_patient_id = 1, first_name = ''Ann'', last_name = ''Lee''\<rparr> \<and>
   3 \<notin> pat_patient_id ` set (Patient example_db) \<and>
   fst (flask_get_patient example_db 3) =
     \<lparr>status_code = 404, body = ErrorBody ''Patient not found''\<rparr> \<and>
   fst (fastapi_get_patient example_db 3) = Inl (HTTPException 404 ''Patient not found'') \<and>
   snd (flask_get_patient example_db 3) = example_db"
proof -
  have m: "1 \<in> pat_patient_id ` set (Patient example_db)"
    and n: "3 \<notin> pat_patient_id ` set (Patient example_db)"
    by (simp_all add: example_db_def)
  note t1 = get_patient_by_id [of example_db 1]
  note t3 = get_patient_by_id [of example_db 3]
  from t1 m obtain p where p: "p \<in> set (Patient example_db)" "pat_patient_id p = 1"
    "fst (flask_get_patient example_db 1) = \<lparr>status_code = 200, body = PatientBody p\<rparr>"
    "fst (fastapi_get_patient example_db 1) = Inr p"
    by blast
  from p(1,2) have "p = \<lparr>pat_oid = ''b1'', pat_patient_id = 1, first_name = ''Ann'', last_name = ''Lee''\<rparr>"
    by (auto simp: example_db_def)
  with p have "fst (flask_get_patient example_db 1) =
     \<lparr>status_code = 200, body = PatientBody
        \<lparr>pat_oid = ''b1'', pat_patient_id = 1, first_name = ''Ann'', last_name = ''Lee''\<rparr>\<rparr>"
    "fst (fastapi_get_patient example_db 1) =
     Inr \<lparr>pat_oid = ''b1'', pat_patient_id = 1, first_name = ''Ann'', last_name = ''Lee''\<rparr>"
    by simp_all
  moreover from t3 n have "fst (flask_get_patient example_db 3) =
     \<lparr>status_code = 404, body = ErrorBody ''Patient not found''\<rparr>"
    "fst (fastapi_get_patient example_db 3) = Inl (HTTPException 404 ''Patient not found'')"
    "snd (flask_get_patient example_db 3) = example_db"
    by blast+
  ultimately show ?thesis using m n by blast
qed

end
